theory Spec2Isabelle
  imports Main
begin

section \<open>Data model\<close>

text \<open>
  The declarations \<^verbatim>\<open>Language\<close>, \<^verbatim>\<open>Question\<close> and \<^verbatim>\<open>TestSession\<close> (the text after the
  component in \<^verbatim>\<open>App.tsx\<close>), as the values are at run time. A question is what
  \<^verbatim>\<open>JSON.parse\<close> returns for the text of the provider, and nothing checks it against its
  declaration: \<^verbatim>\<open>starterCode\<close>, declared \<^verbatim>\<open>Record<Language, string>\<close>, is a dictionary
  that has the languages the answer has, and \<^verbatim>\<open>difficulty\<close>, declared as one of three
  strings, is a string. The field \<^verbatim>\<open>id\<close> is \<open>id_q\<close> in a question and \<open>id_s\<close> in a
  session, \<^verbatim>\<open>output\<close> is \<open>output_e\<close>, the \<^verbatim>\<open>description\<close> of an approach is
  \<open>description_a\<close>, \<^verbatim>\<open>complexity.time\<close> and \<^verbatim>\<open>complexity.space\<close> are \<open>time\<close> and
  \<open>space\<close>, and \<^verbatim>\<open>solution.approaches\<close> is \<open>approaches\<close>.

  A JavaScript object that is used as a dictionary (\<^verbatim>\<open>starterCode\<close>, \<^verbatim>\<open>userCodes\<close> and
  its entries) is a map, so that the spread \<^verbatim>\<open>{ ...o }\<close> is the map itself and
  \<^verbatim>\<open>{ ...o, [k]: v }\<close> is a map update. The index of the current question is a
  JavaScript number that only ever holds integers. A string is a text of characters with
  codes below 256.
\<close>

datatype Language = Java | Cpp | Python | Javascript

type_synonym code_buffers = "Language \<rightharpoonup> string"

record Example =
  input :: string
  output_e :: string
  explanation :: "string option"

record Approach =
  name :: string
  description_a :: string
  time :: string
  space :: string
  code :: string

record Question =
  id_q :: string
  title :: string
  difficulty :: string
  topic :: string
  description :: string
  constraints :: "string list"
  examples :: "Example list"
  starterCode :: code_buffers
  approaches :: "Approach list"
  hints :: "string list"

record TestSession =
  id_s :: string
  questions :: "Question list"
  currentQuestionIndex :: int
  userCodes :: "string \<rightharpoonup> code_buffers"
  language :: Language

text \<open>Buffers as \<^verbatim>\<open>Record<Language, string>\<close> declares them: one for each of the four
  languages.\<close>

definition has_all_languages :: "code_buffers \<Rightarrow> bool" where
  "has_all_languages b =
     (b Java \<noteq> None \<and> b Cpp \<noteq> None \<and> b Python \<noteq> None \<and> b Javascript \<noteq> None)"

text \<open>
  Errors are values. \<^verbatim>\<open>new Error(m)\<close> is \<open>Error m\<close>; what \<^verbatim>\<open>JSON.parse\<close> throws is
  a \<open>SyntaxError\<close>; reading a property of \<^verbatim>\<open>undefined\<close> is a \<open>TypeError\<close>.
\<close>

datatype js_error = Error string | SyntaxError string | TypeError string

fun message :: "js_error \<Rightarrow> string" where
  "message (Error m) = m"
| "message (SyntaxError m) = m"
| "message (TypeError m) = m"

text \<open>JavaScript truthiness of a value that is a string, \<^verbatim>\<open>null\<close> or \<^verbatim>\<open>undefined\<close>.\<close>

fun truthy :: "string option \<Rightarrow> bool" where
  "truthy None = False"
| "truthy (Some s) = (s \<noteq> [])"

text \<open>\<^verbatim>\<open>xs[i]\<close> on an array: \<^verbatim>\<open>undefined\<close> outside the array.\<close>

definition at_index :: "'a list \<Rightarrow> int \<Rightarrow> 'a option" where
  "at_index xs i = (if 0 \<le> i \<and> i < int (length xs) then Some (xs ! nat i) else None)"

section \<open>The provider facade (geminiService.ts)\<close>

text \<open>
  A request to the remote provider is the prompt that the facade builds. The prompt is a
  fixed template around the interpolated values, so a request is represented by the
  operation and those values: the topic or title with the index and the total; for a run
  the title, the description and the examples of the question, the language and the code
  (\<^verbatim>\<open>undefined\<close> prints as such); for a translation the target language, the title
  and the approaches; the language and the topic of a learning module; the message of an
  expert query and its optional context.
\<close>

datatype request =
    Generate_req string nat nat
  | Fetch_req string nat nat
  | Run_req string string "Example list" Language "string option"
  | Translate_req string string "Approach list"
  | Learning_req string string
  | Expert_req string "string option"

text \<open>
  What the provider answers to a request: a rejected call, or a response whose
  \<^verbatim>\<open>text\<close> is a string or \<^verbatim>\<open>undefined\<close>. The provider is a parameter of every
  operation.
\<close>

type_synonym provider = "request \<Rightarrow> js_error + string option"

text \<open>
  The state of the module and of its surroundings: the entry \<^verbatim>\<open>CUSTOM_GEMINI_API_KEY\<close>
  of the local storage, \<^verbatim>\<open>process.env.GEMINI_API_KEY\<close>, the cached client
  \<^verbatim>\<open>aiInstance\<close> (represented by the key it was created with) and, as a record of the
  effects, the requests issued so far, oldest first.
\<close>

record service =
  localKey :: "string option"
  envKey :: "string option"
  aiInstance :: "string option"
  issued :: "request list"

definition getAI :: "service \<Rightarrow> js_error + service" where
  "getAI w =
     (case aiInstance w of
        Some _ \<Rightarrow> Inr w
      | None \<Rightarrow>
          (let customKey = localKey w;
               apiKey = (if truthy customKey then customKey else envKey w)
           in if \<not> truthy apiKey \<or> apiKey = Some ''MY_GEMINI_API_KEY''
              then Inl (Error ''API_KEY_MISSING'')
              else Inr (w\<lparr>aiInstance := apiKey\<rparr>)))"

text \<open>\<^verbatim>\<open>getAI().models.generateContent(...)\<close>: the client, then the request.\<close>

definition generateContent :: "provider \<Rightarrow> service \<Rightarrow> request \<Rightarrow> service \<times> (js_error + string option)" where
  "generateContent p w req =
     (case getAI w of
        Inl e \<Rightarrow> (w, Inl e)
      | Inr w' \<Rightarrow> (w'\<lparr>issued := issued w' @ [req]\<rparr>, p req))"

text \<open>
  The part that the four JSON operations share after the response has arrived:
  \<^verbatim>\<open>if (!response.text) throw new Error("Empty response from AI"); return JSON.parse(response.text)\<close>.
  \<^verbatim>\<open>JSON.parse\<close> is a parameter: it returns the parsed value or the error it throws.
\<close>

definition parseResponse :: "(string \<Rightarrow> js_error + 'a) \<Rightarrow> js_error + string option \<Rightarrow> js_error + 'a" where
  "parseResponse parse r =
     (case r of
        Inl e \<Rightarrow> Inl e
      | Inr None \<Rightarrow> Inl (Error ''Empty response from AI'')
      | Inr (Some text) \<Rightarrow>
          if text = [] then Inl (Error ''Empty response from AI'')
          else parse text)"

definition generateSingleQuestion ::
  "provider \<Rightarrow> (string \<Rightarrow> js_error + Question) \<Rightarrow> service \<Rightarrow> string \<Rightarrow> nat \<Rightarrow> nat
     \<Rightarrow> service \<times> (js_error + Question)" where
  "generateSingleQuestion p parse w tpc index n =
     (let (w', r) = generateContent p w (Generate_req tpc index n)
      in (w', parseResponse parse r))"

definition fetchSingleQuestionByTitle ::
  "provider \<Rightarrow> (string \<Rightarrow> js_error + Question) \<Rightarrow> service \<Rightarrow> string \<Rightarrow> nat \<Rightarrow> nat
     \<Rightarrow> service \<times> (js_error + Question)" where
  "fetchSingleQuestionByTitle p parse w ttl index n =
     (let (w', r) = generateContent p w (Fetch_req ttl index n)
      in (w', parseResponse parse r))"

text \<open>The result of a run, as the response schema of \<^verbatim>\<open>runCodeMock\<close> and the literal of
  \<^verbatim>\<open>handleRunCode\<close> have it.\<close>

record ExampleResult =
  exampleIndex :: int
  passed :: bool
  actualOutput :: string
  expectedOutput :: string
  consoleLog :: "string option"

record ExecutionResult =
  status :: string
  results :: "ExampleResult list option"
  message_r :: "string option"

definition runCodeMock ::
  "provider \<Rightarrow> (string \<Rightarrow> js_error + ExecutionResult) \<Rightarrow> service \<Rightarrow> string option \<Rightarrow> Language
     \<Rightarrow> Question \<Rightarrow> service \<times> (js_error + ExecutionResult)" where
  "runCodeMock p parse w cde lang question =
     (let (w', r) = generateContent p w
                      (Run_req (title question) (description question) (examples question) lang cde)
      in (w', parseResponse parse r))"

text \<open>
  \<^verbatim>\<open>translateSolution\<close> catches whatever is thrown inside it, also the \<^verbatim>\<open>TypeError\<close> of
  \<^verbatim>\<open>question.title\<close> when the caller passes \<^verbatim>\<open>undefined\<close>, and returns a string in
  every case.
\<close>

definition translateSolution ::
  "provider \<Rightarrow> service \<Rightarrow> Question option \<Rightarrow> string \<Rightarrow> service \<times> string" where
  "translateSolution p w question targetLanguage =
     (case question of
        None \<Rightarrow> (w, ''Failed to translate solution.'')
      | Some q \<Rightarrow>
          (case generateContent p w (Translate_req targetLanguage (title q) (approaches q)) of
             (w', Inl e) \<Rightarrow> (w', ''Failed to translate solution.'')
           | (w', Inr None) \<Rightarrow> (w', ''Translation failed.'')
           | (w', Inr (Some text)) \<Rightarrow> (w', if text = [] then ''Translation failed.'' else text)))"

definition getLearningContent ::
  "provider \<Rightarrow> service \<Rightarrow> string \<Rightarrow> string \<Rightarrow> service \<times> (js_error + string)" where
  "getLearningContent p w lang tpc =
     (case generateContent p w (Learning_req lang tpc) of
        (w', Inl e) \<Rightarrow> (w', Inl e)
      | (w', Inr None) \<Rightarrow> (w', Inr ''Failed to generate content.'')
      | (w', Inr (Some text)) \<Rightarrow>
          (w', Inr (if text = [] then ''Failed to generate content.'' else text)))"

definition getExpertAdvice ::
  "provider \<Rightarrow> service \<Rightarrow> string \<Rightarrow> string option \<Rightarrow> service \<times> (js_error + string)" where
  "getExpertAdvice p w msg ctxt =
     (case generateContent p w (Expert_req msg ctxt) of
        (w', Inl e) \<Rightarrow> (w', Inl e)
      | (w', Inr None) \<Rightarrow> (w', Inr ''Expert is currently unavailable.'')
      | (w', Inr (Some text)) \<Rightarrow>
          (w', Inr (if text = [] then ''Expert is currently unavailable.'' else text)))"

section \<open>The application state and its handlers (App.tsx)\<close>

datatype View = Home | Test | Import | Settings | Learning | Expert | Results

datatype Tab = Description | Hints | Solution

text \<open>
  The \<^verbatim>\<open>useState\<close> cells that the handlers below read or write (the cells of the
  learning and expert views belong to handlers that are not modelled). A handler is a
  function from the state to the state that its \<^verbatim>\<open>set...\<close> calls leave behind; a handler
  that calls the facade also takes and returns the state of the facade. What is written
  to the console is left out, and so is the effect that asks for a translation when the
  solution tab is shown, which writes \<^verbatim>\<open>translatedSolution\<close> and \<^verbatim>\<open>translating\<close> only.
\<close>

record App =
  view :: View
  session :: "TestSession option"
  importText :: string
  activeTab :: Tab
  translatedSolution :: "string option"
  translating :: bool
  executionResult :: "ExecutionResult option"
  running :: bool
  error :: "string option"
  apiKeyMissing :: bool
  showKeyModal :: bool
  customApiKey :: string
  loadingImport :: bool
  loadingMockTest :: bool

subsection \<open>Strings\<close>

text \<open>\<^verbatim>\<open>s.split(c)\<close> for a one-character separator: never empty, \<^verbatim>\<open>"".split(c)\<close> is
  \<^verbatim>\<open>[""]\<close>.\<close>

fun split :: "char \<Rightarrow> string \<Rightarrow> string list" where
  "split c [] = [[]]"
| "split c (x # xs) =
     (if x = c then [] # split c xs
      else (case split c xs of
              [] \<Rightarrow> [[x]]
            | l # ls \<Rightarrow> (x # l) # ls))"

text \<open>
  What \<^verbatim>\<open>trim\<close> strips: the white space and the line terminators of ECMAScript. Those with
  a code below 256 are the tabulation, the line feed, the vertical tabulation, the form
  feed, the carriage return, the space and the no-break space.
\<close>

definition isWhiteSpace :: "char \<Rightarrow> bool" where
  "isWhiteSpace c =
     (c \<in> set [CHR 0x09, CHR 0x0A, CHR 0x0B, CHR 0x0C, CHR 0x0D, CHR 0x20, CHR 0xA0])"

definition trim :: "string \<Rightarrow> string" where
  "trim s = rev (dropWhile isWhiteSpace (rev (dropWhile isWhiteSpace s)))"

definition language_tag :: "Language \<Rightarrow> string" where
  "language_tag l = (case l of Java \<Rightarrow> ''java'' | Cpp \<Rightarrow> ''cpp''
                      | Python \<Rightarrow> ''python'' | Javascript \<Rightarrow> ''javascript'')"

subsection \<open>The credential\<close>

definition checkApiKey :: "service \<Rightarrow> App \<Rightarrow> App" where
  "checkApiKey w st =
     (if (\<not> truthy (envKey w) \<or> envKey w = Some ''MY_GEMINI_API_KEY'') \<and> \<not> truthy (localKey w)
      then st\<lparr>apiKeyMissing := True\<rparr>
      else st\<lparr>apiKeyMissing := False\<rparr>)"

text \<open>A page load: the initial values of the cells, then the effect that checks the key.
  The module of the facade is loaded anew, so its client is \<^verbatim>\<open>null\<close> again.\<close>

definition load :: "service \<Rightarrow> service \<times> App" where
  "load w =
     (let w' = w\<lparr>aiInstance := None\<rparr>
      in (w', checkApiKey w'
            \<lparr>view = Home, session = None, importText = [], activeTab = Description,
             translatedSolution = None, translating = False, executionResult = None,
             running = False, error = None, apiKeyMissing = False, showKeyModal = False,
             customApiKey = (if truthy (localKey w') then the (localKey w') else []),
             loadingImport = False, loadingMockTest = False\<rparr>))"

definition handleSaveCustomKey :: "service \<Rightarrow> App \<Rightarrow> service \<times> App" where
  "handleSaveCustomKey w st =
     (if trim (customApiKey st) \<noteq> []
      then load (w\<lparr>localKey := Some (trim (customApiKey st))\<rparr>)
      else (let w' = w\<lparr>localKey := None\<rparr> in (w', checkApiKey w' st)))"

subsection \<open>Building a session\<close>

text \<open>The object literal \<^verbatim>\<open>newSession\<close>; the random identifier is a parameter.\<close>

definition newSession :: "string \<Rightarrow> Question \<Rightarrow> TestSession" where
  "newSession sid firstQuestion =
     \<lparr>id_s = sid, questions = [firstQuestion], currentQuestionIndex = 0,
      userCodes = [id_q firstQuestion \<mapsto> starterCode firstQuestion], language = Java\<rparr>"

text \<open>The updater that the background loops pass to \<^verbatim>\<open>setSession\<close>.\<close>

definition appendQuestion :: "Question \<Rightarrow> TestSession option \<Rightarrow> TestSession option" where
  "appendQuestion q prev =
     (case prev of
        None \<Rightarrow> None
      | Some s \<Rightarrow> Some (s\<lparr>questions := questions s @ [q],
                         userCodes := (userCodes s)(id_q q \<mapsto> starterCode q)\<rparr>))"

text \<open>\<^verbatim>\<open>err.message || fallback\<close>.\<close>

definition message_or :: "js_error \<Rightarrow> string \<Rightarrow> string" where
  "message_or err fallback = (if message err \<noteq> [] then message err else fallback)"

text \<open>
  \<^verbatim>\<open>handleStartMockTest\<close> and \<^verbatim>\<open>handleImportQuestions\<close> are asynchronous: each runs up
  to an \<^verbatim>\<open>await\<close> of the facade and goes on when the answer is there, and in between
  the user and other builds act on the state. A build that waits is a \<open>task\<close>: which
  builder it is (with the topic, or with the titles), where in its text it waits (for
  the first question, with the identifier of the session to come, or in the loop at item
  \<open>i\<close>), and the outcome that the facade will deliver. The facade has done its part
  (the client, the request) when the wait began.
\<close>

datatype build = MockTest string | ImportTitles "string list"

datatype point = First string | Loop nat

record task =
  builder :: build
  point :: point
  outcome :: "js_error + Question"

text \<open>The whole state: the facade, the cells, and the builds that wait, oldest first.\<close>

record system =
  facade :: service
  app :: App
  pending :: "task list"

text \<open>\<^verbatim>\<open>total\<close>, and the request for item \<open>i\<close>.\<close>

fun items :: "build \<Rightarrow> nat" where
  "items (MockTest tpc) = 5"
| "items (ImportTitles titles) = length titles"

fun fetchItem ::
  "provider \<Rightarrow> (string \<Rightarrow> js_error + Question) \<Rightarrow> service \<Rightarrow> build \<Rightarrow> nat
     \<Rightarrow> service \<times> (js_error + Question)" where
  "fetchItem p parse w (MockTest tpc) i = generateSingleQuestion p parse w tpc i 5"
| "fetchItem p parse w (ImportTitles titles) i =
     fetchSingleQuestionByTitle p parse w (titles ! i) i (length titles)"

text \<open>The loading flag of a builder, and the text it shows for an error with no message.\<close>

fun setLoading :: "build \<Rightarrow> bool \<Rightarrow> App \<Rightarrow> App" where
  "setLoading (MockTest tpc) v st = st\<lparr>loadingMockTest := v\<rparr>"
| "setLoading (ImportTitles titles) v st = st\<lparr>loadingImport := v\<rparr>"

fun fallback :: "build \<Rightarrow> string" where
  "fallback (MockTest tpc) = ''Failed to generate test. Please try again.''"
| "fallback (ImportTitles titles) = ''Failed to import questions. Please try again.''"

text \<open>The handlers up to their first \<^verbatim>\<open>await\<close>.\<close>

definition handleStartMockTest ::
  "provider \<Rightarrow> (string \<Rightarrow> js_error + Question) \<Rightarrow> string \<Rightarrow> string \<Rightarrow> system \<Rightarrow> system" where
  "handleStartMockTest p parse sid tpc sys =
     (if apiKeyMissing (app sys) then sys\<lparr>app := (app sys)\<lparr>showKeyModal := True\<rparr>\<rparr>
      else
        (let st1 = (app sys)\<lparr>loadingMockTest := True, error := None\<rparr>;
             n = 5;
             (w1, r) = generateSingleQuestion p parse (facade sys) tpc 0 n
         in \<lparr>facade = w1, app = st1,
             pending = pending sys @ [\<lparr>builder = MockTest tpc, point = First sid, outcome = r\<rparr>]\<rparr>))"

definition handleImportQuestions ::
  "provider \<Rightarrow> (string \<Rightarrow> js_error + Question) \<Rightarrow> string \<Rightarrow> system \<Rightarrow> system" where
  "handleImportQuestions p parse sid sys =
     (if apiKeyMissing (app sys) then sys\<lparr>app := (app sys)\<lparr>showKeyModal := True\<rparr>\<rparr>
      else
        (let titles = filter (\<lambda>t. trim t \<noteq> []) (split (CHR 0x0A) (importText (app sys)))
         in if length titles = 0 then sys
            else
              (let st1 = (app sys)\<lparr>loadingImport := True, error := None\<rparr>;
                   n = length titles;
                   (w1, r) = fetchSingleQuestionByTitle p parse (facade sys) (titles ! 0) 0 n
               in \<lparr>facade = w1, app = st1,
                   pending = pending sys @ [\<lparr>builder = ImportTitles titles, point = First sid,
                                              outcome = r\<rparr>]\<rparr>)))"

text \<open>
  The head of the loop \<^verbatim>\<open>for (let i = ...; i < total; i++)\<close>, reached by the build at
  place \<open>k\<close>: with an item left the build asks for it and waits again; with none left it
  is over.
\<close>

definition loop ::
  "provider \<Rightarrow> (string \<Rightarrow> js_error + Question) \<Rightarrow> nat \<Rightarrow> build \<Rightarrow> nat \<Rightarrow> system \<Rightarrow> system" where
  "loop p parse k b i sys =
     (if i < items b then
        (let (w', r) = fetchItem p parse (facade sys) b i
         in sys\<lparr>facade := w',
                pending := (pending sys)[k := \<lparr>builder = b, point = Loop i, outcome = r\<rparr>]\<rparr>)
      else sys\<lparr>pending := take k (pending sys) @ drop (Suc k) (pending sys)\<rparr>)"

text \<open>
  The build at place \<open>k\<close> goes on with its outcome. After the first question: the
  \<^verbatim>\<open>catch\<close> of the handler for a failure, and for a question the new session, the
  practice view, and the loop from item 1. In the loop: the updater for a question,
  nothing for a failure (the inner \<^verbatim>\<open>catch\<close>), and the loop from the next item.
\<close>

definition resume ::
  "provider \<Rightarrow> (string \<Rightarrow> js_error + Question) \<Rightarrow> nat \<Rightarrow> system \<Rightarrow> system" where
  "resume p parse k sys =
     (if k < length (pending sys) then
        (let t = pending sys ! k; b = builder t; st = app sys
         in case point t of
              First sid \<Rightarrow>
                (case outcome t of
                   Inl err \<Rightarrow>
                     sys\<lparr>app := setLoading b False (st\<lparr>error := Some (message_or err (fallback b))\<rparr>),
                         pending := take k (pending sys) @ drop (Suc k) (pending sys)\<rparr>
                 | Inr firstQuestion \<Rightarrow>
                     loop p parse k b 1
                       (sys\<lparr>app := setLoading b False
                                      (st\<lparr>session := Some (newSession sid firstQuestion),
                                          view := Test\<rparr>)\<rparr>))
            | Loop i \<Rightarrow>
                (case outcome t of
                   Inr q \<Rightarrow>
                     loop p parse k b (i + 1)
                       (sys\<lparr>app := st\<lparr>session := appendQuestion q (session st)\<rparr>\<rparr>)
                 | Inl err \<Rightarrow> loop p parse k b (i + 1) sys))
      else sys)"

subsection \<open>Working in a session\<close>

text \<open>
  \<^verbatim>\<open>handleTranslateSolution\<close> reads the current question with \<^verbatim>\<open>questions[index]\<close> and
  hands it to the facade as it is. When \<^verbatim>\<open>changeLanguage\<close> calls it, the session of its
  closure is the one before the language was set; the two have the same questions and
  index, which is all that is read.
\<close>

definition handleTranslateSolution :: "provider \<Rightarrow> string \<Rightarrow> service \<Rightarrow> App \<Rightarrow> service \<times> App" where
  "handleTranslateSolution p lang w st =
     (case session st of
        None \<Rightarrow> (w, st)
      | Some s \<Rightarrow>
          (let currentQuestion = at_index (questions s) (currentQuestionIndex s);
               (w', translation) = translateSolution p w currentQuestion lang
           in (w', st\<lparr>translatedSolution := Some translation, translating := False\<rparr>)))"

definition changeLanguage :: "provider \<Rightarrow> Language \<Rightarrow> service \<Rightarrow> App \<Rightarrow> service \<times> App" where
  "changeLanguage p lang w st =
     (case session st of
        None \<Rightarrow> (w, st)
      | Some s \<Rightarrow>
          (let st1 = st\<lparr>session := Some (s\<lparr>language := lang\<rparr>), translatedSolution := None\<rparr>
           in if activeTab st = Solution
              then handleTranslateSolution p (language_tag lang) w st1
              else (w, st1)))"

text \<open>
  \<^verbatim>\<open>handleRunCode\<close> and \<^verbatim>\<open>updateCode\<close> read \<^verbatim>\<open>.id\<close> of the current question before
  any state is set: with an index outside the list that is a \<^verbatim>\<open>TypeError\<close> which nothing
  catches, and the state stays as it was. The same holds for the buffers of a question
  that \<^verbatim>\<open>userCodes\<close> does not have.
\<close>

definition handleRunCode ::
  "provider \<Rightarrow> (string \<Rightarrow> js_error + ExecutionResult) \<Rightarrow> service \<Rightarrow> App
     \<Rightarrow> js_error + service \<times> App" where
  "handleRunCode p parse w st =
     (if apiKeyMissing st then Inr (w, st\<lparr>showKeyModal := True\<rparr>)
      else case session st of
        None \<Rightarrow> Inr (w, st)
      | Some s \<Rightarrow>
          (case at_index (questions s) (currentQuestionIndex s) of
             None \<Rightarrow> Inl (TypeError ''Cannot read properties of undefined'')
           | Some currentQuestion \<Rightarrow>
               (case userCodes s (id_q currentQuestion) of
                  None \<Rightarrow> Inl (TypeError ''Cannot read properties of undefined'')
                | Some buffers \<Rightarrow>
                    (let cde = buffers (language s);
                         st1 = st\<lparr>running := True, executionResult := None\<rparr>
                     in case runCodeMock p parse w cde (language s) currentQuestion of
                          (w', Inr result) \<Rightarrow>
                            Inr (w', st1\<lparr>executionResult := Some result, running := False\<rparr>)
                        | (w', Inl err) \<Rightarrow>
                            Inr (w', st1\<lparr>executionResult :=
                                           Some \<lparr>status = ''Error'', results = None,
                                                 message_r = Some ''Failed to execute code.''\<rparr>,
                                         running := False\<rparr>)))))"

definition updateCode :: "string option \<Rightarrow> App \<Rightarrow> js_error + App" where
  "updateCode newCode st =
     (case session st of
        None \<Rightarrow> Inr st
      | Some s \<Rightarrow>
          (case newCode of
             None \<Rightarrow> Inr st
           | Some c \<Rightarrow>
               if c = [] then Inr st
               else (case at_index (questions s) (currentQuestionIndex s) of
                       None \<Rightarrow> Inl (TypeError ''Cannot read properties of undefined'')
                     | Some currentQuestion \<Rightarrow>
                         (let qId = id_q currentQuestion;
                              old = (case userCodes s qId of None \<Rightarrow> Map.empty | Some b \<Rightarrow> b)
                          in Inr (st\<lparr>session :=
                                      Some (s\<lparr>userCodes :=
                                                (userCodes s)(qId \<mapsto> old(language s \<mapsto> c))\<rparr>)\<rparr>)))))"

definition nextQuestion :: "App \<Rightarrow> App" where
  "nextQuestion st =
     (case session st of
        None \<Rightarrow> st
      | Some s \<Rightarrow>
          if currentQuestionIndex s \<ge> int (length (questions s)) - 1 then st
          else st\<lparr>session := Some (s\<lparr>currentQuestionIndex := currentQuestionIndex s + 1\<rparr>),
                  executionResult := None, activeTab := Description\<rparr>)"

definition prevQuestion :: "App \<Rightarrow> App" where
  "prevQuestion st =
     (case session st of
        None \<Rightarrow> st
      | Some s \<Rightarrow>
          if currentQuestionIndex s \<le> 0 then st
          else st\<lparr>session := Some (s\<lparr>currentQuestionIndex := currentQuestionIndex s - 1\<rparr>),
                  executionResult := None, activeTab := Description\<rparr>)"

subsection \<open>What happens, one event after the other\<close>

text \<open>
  The application runs on one thread: the state changes by one handler, or by one build
  going on after its \<^verbatim>\<open>await\<close>, at a time, in any order. An event is one of these:
  the handlers above with their arguments, the writes of the input fields and of the
  navigation (\<^verbatim>\<open>setImportText\<close>, \<^verbatim>\<open>setCustomApiKey\<close>, \<^verbatim>\<open>setActiveTab\<close>, \<^verbatim>\<open>setView\<close>),
  and \<open>Resume k\<close> for the build at place \<open>k\<close>. An error that a handler throws and
  nothing catches leaves the state as it is. Saving a key reloads the page, which ends
  the builds that wait. \<^verbatim>\<open>handleRunCode\<close> and the translation inside \<^verbatim>\<open>changeLanguage\<close>
  are taken with their \<^verbatim>\<open>await\<close> as one event: neither writes the session or reads
  what a build writes. The handlers of the learning and expert views write cells of
  their own.
\<close>

datatype event =
    StartMockTest string string
  | ImportQuestions string
  | Resume nat
  | ChangeLanguage Language
  | UpdateCode "string option"
  | NextQuestion
  | PrevQuestion
  | RunCode
  | SaveCustomKey
  | SetImportText string
  | SetCustomApiKey string
  | SetActiveTab Tab
  | SetView View

fun perform ::
  "provider \<Rightarrow> (string \<Rightarrow> js_error + Question) \<Rightarrow> (string \<Rightarrow> js_error + ExecutionResult)
     \<Rightarrow> event \<Rightarrow> system \<Rightarrow> system" where
  "perform p parse parse' (StartMockTest tpc sid) sys = handleStartMockTest p parse sid tpc sys"
| "perform p parse parse' (ImportQuestions sid) sys = handleImportQuestions p parse sid sys"
| "perform p parse parse' (Resume k) sys = resume p parse k sys"
| "perform p parse parse' (ChangeLanguage lang) sys =
     (let (w, st) = changeLanguage p lang (facade sys) (app sys)
      in sys\<lparr>facade := w, app := st\<rparr>)"
| "perform p parse parse' (UpdateCode newCode) sys =
     (case updateCode newCode (app sys) of
        Inl err \<Rightarrow> sys
      | Inr st \<Rightarrow> sys\<lparr>app := st\<rparr>)"
| "perform p parse parse' NextQuestion sys = sys\<lparr>app := nextQuestion (app sys)\<rparr>"
| "perform p parse parse' PrevQuestion sys = sys\<lparr>app := prevQuestion (app sys)\<rparr>"
| "perform p parse parse' RunCode sys =
     (case handleRunCode p parse' (facade sys) (app sys) of
        Inl err \<Rightarrow> sys
      | Inr (w, st) \<Rightarrow> sys\<lparr>facade := w, app := st\<rparr>)"
| "perform p parse parse' SaveCustomKey sys =
     (let (w, st) = handleSaveCustomKey (facade sys) (app sys)
      in \<lparr>facade = w, app = st,
          pending = (if trim (customApiKey (app sys)) \<noteq> [] then [] else pending sys)\<rparr>)"
| "perform p parse parse' (SetImportText s) sys = sys\<lparr>app := (app sys)\<lparr>importText := s\<rparr>\<rparr>"
| "perform p parse parse' (SetCustomApiKey s) sys = sys\<lparr>app := (app sys)\<lparr>customApiKey := s\<rparr>\<rparr>"
| "perform p parse parse' (SetActiveTab t) sys = sys\<lparr>app := (app sys)\<lparr>activeTab := t\<rparr>\<rparr>"
| "perform p parse parse' (SetView v) sys = sys\<lparr>app := (app sys)\<lparr>view := v\<rparr>\<rparr>"

fun run ::
  "provider \<Rightarrow> (string \<Rightarrow> js_error + Question) \<Rightarrow> (string \<Rightarrow> js_error + ExecutionResult)
     \<Rightarrow> event list \<Rightarrow> system \<Rightarrow> system" where
  "run p parse parse' [] sys = sys"
| "run p parse parse' (ev # evs) sys = run p parse parse' evs (perform p parse parse' ev sys)"

section \<open>Properties of a session\<close>

text \<open>The index of the current question points into the list of questions.\<close>

definition valid_index :: "App \<Rightarrow> bool" where
  "valid_index st =
     (case session st of
        None \<Rightarrow> True
      | Some s \<Rightarrow> 0 \<le> currentQuestionIndex s \<and> currentQuestionIndex s < int (length (questions s)))"

text \<open>Every question of the session has its buffers, one for each language.\<close>

definition codes_seeded :: "TestSession \<Rightarrow> bool" where
  "codes_seeded s =
     list_all (\<lambda>q. case userCodes s (id_q q) of None \<Rightarrow> False | Some b \<Rightarrow> has_all_languages b)
       (questions s)"

definition buffers_complete :: "App \<Rightarrow> bool" where
  "buffers_complete st = (case session st of None \<Rightarrow> True | Some s \<Rightarrow> codes_seeded s)"

text \<open>
  Of the items \<open>js\<close>, in the order of the list, the results of those whose outcome
  \<open>out j\<close> is a success.
\<close>

definition successes :: "(nat \<Rightarrow> js_error + 'a) \<Rightarrow> nat list \<Rightarrow> 'a list" where
  "successes out js = map (\<lambda>j. projr (out j)) (filter (\<lambda>j. \<not> isl (out j)) js)"

text \<open>No credential: nothing usable in the local storage, and the key of the environment
  absent, empty or the placeholder.\<close>

definition no_credential :: "service \<Rightarrow> bool" where
  "no_credential w =
     (\<not> truthy (localKey w) \<and> (\<not> truthy (envKey w) \<or> envKey w = Some ''MY_GEMINI_API_KEY''))"



text \<open>Every question of the session has an entry in \<^verbatim>\<open>userCodes\<close>.\<close>

definition codes_present :: "TestSession \<Rightarrow> bool" where
  "codes_present s = list_all (\<lambda>q. userCodes s (id_q q) \<noteq> None) (questions s)"

definition entries_present :: "App \<Rightarrow> bool" where
  "entries_present st = (case session st of None \<Rightarrow> True | Some s \<Rightarrow> codes_present s)"

text \<open>The questions that the builds in wait will deliver have their four starter codes.\<close>

definition outcomes_complete :: "system \<Rightarrow> bool" where
  "outcomes_complete sys =
     list_all (\<lambda>t. case outcome t of Inl e \<Rightarrow> True | Inr q \<Rightarrow> has_all_languages (starterCode q))
       (pending sys)"

text \<open>The request of a build for its item \<open>j\<close>, and what the facade returns for it once
  the client exists.\<close>

fun request_of :: "build \<Rightarrow> nat \<Rightarrow> request" where
  "request_of (MockTest tpc) j = Generate_req tpc j 5"
| "request_of (ImportTitles titles) j = Fetch_req (titles ! j) j (length titles)"

definition answer ::
  "provider \<Rightarrow> (string \<Rightarrow> js_error + Question) \<Rightarrow> build \<Rightarrow> nat \<Rightarrow> js_error + Question" where
  "answer p parse b j = parseResponse parse (p (request_of b j))"

text \<open>
  An event that neither starts a build nor saves a key (which may reload the page):
  the user changes the language, writes code, moves, runs code, types, changes the view
  or the tab, or a build goes on.
\<close>

fun quiet :: "event \<Rightarrow> bool" where
  "quiet (StartMockTest tpc sid) = False"
| "quiet (ImportQuestions sid) = False"
| "quiet SaveCustomKey = False"
| "quiet ev = True"

text \<open>
  A build \<open>b\<close> that is the only one in wait, at item \<open>k\<close>: the client exists, the
  outcome in wait is the answer for item \<open>k\<close> (a question, for the first item), and
  from item 1 on the questions of the session are the successes among the items before
  \<open>k\<close>. And the state when that build is over.
\<close>

definition building ::
  "provider \<Rightarrow> (string \<Rightarrow> js_error + Question) \<Rightarrow> build \<Rightarrow> string \<Rightarrow> nat \<Rightarrow> system \<Rightarrow> bool" where
  "building p parse b sid k sys =
     (aiInstance (facade sys) \<noteq> None \<and> k < items b
      \<and> pending sys = [\<lparr>builder = b, point = (if k = 0 then First sid else Loop k),
                         outcome = answer p parse b k\<rparr>]
      \<and> (if k = 0 then \<not> isl (answer p parse b 0)
          else map_option questions (session (app sys))
                 = Some (successes (answer p parse b) [0..<k])))"

definition built ::
  "provider \<Rightarrow> (string \<Rightarrow> js_error + Question) \<Rightarrow> build \<Rightarrow> system \<Rightarrow> bool" where
  "built p parse b sys =
     (aiInstance (facade sys) \<noteq> None \<and> pending sys = []
      \<and> map_option questions (session (app sys))
            = Some (successes (answer p parse b) [0..<items b]))"

section \<open>Example values\<close>

definition example_question :: "string \<Rightarrow> string \<Rightarrow> Question" where
  "example_question i t =
     \<lparr>id_q = i, title = t, difficulty = ''Easy'', topic = ''Arrays'', description = ''...'',
      constraints = [], examples = [],
      starterCode = [Java \<mapsto> ''class Solution {}'', Cpp \<mapsto> ''class Solution {};'',
                     Python \<mapsto> ''class Solution: pass'', Javascript \<mapsto> ''var f = 0;''],
      approaches = [], hints = []\<rparr>"

definition example_session :: TestSession where
  "example_session =
     \<lparr>id_s = ''abc'',
      questions = [example_question ''q1'' ''Two Sum'',
                   example_question ''q2'' ''Reverse Linked List''],
      currentQuestionIndex = 0,
      userCodes = [''q1'' \<mapsto> starterCode (example_question ''q1'' ''Two Sum''),
                   ''q2'' \<mapsto> starterCode (example_question ''q2'' ''Reverse Linked List'')],
      language = Java\<rparr>"

definition example_app :: "TestSession option \<Rightarrow> App" where
  "example_app s =
     \<lparr>view = Test, session = s, importText = [], activeTab = Description,
      translatedSolution = None, translating = False, executionResult = None,
      running = False, error = None, apiKeyMissing = False, showKeyModal = False,
      customApiKey = [], loadingImport = False, loadingMockTest = False\<rparr>"

definition example_service :: service where
  "example_service = \<lparr>localKey = Some ''key'', envKey = None, aiInstance = None, issued = []\<rparr>"

definition example_import :: string where
  "example_import =
     ''Two Sum'' @ [CHR 0x0A] @ ''BAD_TITLE_CAUSES_FAILURE'' @ [CHR 0x0A] @ ''Reverse Linked List''"

text \<open>A provider that knows every title but one, and a parser that reads a title as the
  question of that title.\<close>

definition example_provider :: provider where
  "example_provider req =
     (case req of
        Fetch_req t i n \<Rightarrow>
          if t = ''BAD_TITLE_CAUSES_FAILURE'' then Inl (Error ''unknown question'')
          else Inr (Some t)
      | _ \<Rightarrow> Inr None)"

definition example_parse :: "string \<Rightarrow> js_error + Question" where
  "example_parse t = Inr (example_question t t)"

text \<open>
  A text that a provider can answer to a run, \<^verbatim>\<open>{"status":"Time Limit Exceeded","results":[]}\<close>,
  and what \<^verbatim>\<open>JSON.parse\<close> makes of it; on this one text \<open>example_run_parse\<close> is
  \<^verbatim>\<open>JSON.parse\<close>.
\<close>

definition quoted :: "string \<Rightarrow> string" where
  "quoted s = [CHR 0x22] @ s @ [CHR 0x22]"

definition example_run_text :: string where
  "example_run_text =
     ''{'' @ quoted ''status'' @ '':'' @ quoted ''Time Limit Exceeded'' @ '','' @
     quoted ''results'' @ '':[]}''"

definition example_run_parse :: "string \<Rightarrow> js_error + ExecutionResult" where
  "example_run_parse t =
     (if t = example_run_text
      then Inr \<lparr>status = ''Time Limit Exceeded'', results = Some [], message_r = None\<rparr>
      else Inl (SyntaxError ''Unexpected token''))"

text \<open>Providers that answer every request alike: with a rejection, with a response that
  has no text, with an empty text, and with a text.\<close>

definition provider_down :: provider where
  "provider_down req = Inl (Error ''503'')"

definition provider_silent :: provider where
  "provider_silent req = Inr None"

definition provider_blank :: provider where
  "provider_blank req = Inr (Some [])"

definition provider_text :: provider where
  "provider_text req = Inr (Some ''text'')"


definition example_edited :: TestSession where
  "example_edited =
     example_session\<lparr>userCodes := (userCodes example_session)(''q1'' \<mapsto>
        (starterCode (example_question ''q1'' ''Two Sum''))(Java \<mapsto> ''return 1;''))\<rparr>"

text \<open>A client is created while a key is stored; then, in a session with the solution tab
  shown, the key is removed in the settings with an empty field.\<close>

definition example_cleared :: "service \<times> App" where
  "example_cleared =
     handleSaveCustomKey
       (fst (getLearningContent provider_text example_service ''java'' ''arrays''))
       ((example_app (Some example_session))\<lparr>activeTab := Solution\<rparr>)"

text \<open>A system with no build in wait.\<close>

definition example_system :: "App \<Rightarrow> system" where
  "example_system st = \<lparr>facade = example_service, app = st, pending = []\<rparr>"

text \<open>A parser whose questions have starter code for java only.\<close>

definition example_parse_java :: "string \<Rightarrow> js_error + Question" where
  "example_parse_java t =
     Inr ((example_question t t)\<lparr>starterCode := [Java \<mapsto> ''class Solution {}'']\<rparr>)"

text \<open>A provider that answers the request for item \<open>j\<close> on a topic with the text of the
  topic and the number.\<close>

definition provider_numbered :: provider where
  "provider_numbered req =
     (case req of
        Generate_req t j n \<Rightarrow> Inr (Some (t @ ''-'' @ [''0'', ''1'', ''2'', ''3'', ''4''] ! j))
      | _ \<Rightarrow> Inr None)"

text \<open>
  Two builds that overlap: a mock test on trees is started and waits for its fourth
  question when the user goes back to the home view and starts a mock test on dynamic
  programming, which runs to its end; then the first build goes on.
\<close>

definition example_overlap :: "event list" where
  "example_overlap =
     [StartMockTest ''Trees'' ''sidA'', Resume 0, Resume 0, Resume 0, SetView Home,
      StartMockTest ''DP'' ''sidB'', Resume 1, Resume 1, Resume 1, Resume 1, Resume 1,
      Resume 0, Resume 0]"

lemmas example_defs =
  example_question_def example_session_def example_app_def

section \<open>Facts about the example values\<close>

lemma example_titles:
  "filter (\<lambda>t. trim t \<noteq> []) (split (CHR 0x0A) example_import)
     = [''Two Sum'', ''BAD_TITLE_CAUSES_FAILURE'', ''Reverse Linked List'']"
  by (simp add: example_import_def trim_def isWhiteSpace_def)

lemma example_update:
  "updateCode (Some ''return 1;'') (example_app (Some example_session))
     = Inr (example_app (Some example_edited))"
  by (simp add: updateCode_def at_index_def Let_def example_edited_def example_defs)

section \<open>Facts about the facade and the builds\<close>

lemma truthy_defined: "truthy x \<Longrightarrow> \<exists>y. x = Some y"
  by (cases x) simp_all

lemma generateContent_ready:
  "aiInstance w \<noteq> None \<Longrightarrow> generateContent p w req = (w\<lparr>issued := issued w @ [req]\<rparr>, p req)"
  by (auto simp: generateContent_def getAI_def)

lemma generateContent_client:
  "aiInstance w \<noteq> None \<Longrightarrow> aiInstance (fst (generateContent p w req)) \<noteq> None"
  by (simp add: generateContent_ready)

lemma generateContent_result:
  "snd (generateContent p w req) = p req \<or> snd (generateContent p w req) = Inl (Error ''API_KEY_MISSING'')"
  by (auto simp: generateContent_def getAI_def Let_def split: option.splits)

lemma generateContent_issued:
  "generateContent p w req = (w', r) \<Longrightarrow> issued w' = issued w \<or> issued w' = issued w @ [req]"
  by (auto simp: generateContent_def getAI_def Let_def split: sum.splits option.splits if_splits)

lemma generateContent_getAI:
  "getAI w = Inr w' \<Longrightarrow> generateContent p w req = (w'\<lparr>issued := issued w' @ [req]\<rparr>, p req)"
  by (simp add: generateContent_def)

lemma generateContent_no_client:
  "getAI w = Inl e \<Longrightarrow> generateContent p w req = (w, Inl e)"
  by (simp add: generateContent_def)

lemma getAI_client: "getAI w = Inr w' \<Longrightarrow> aiInstance w' \<noteq> None"
  by (auto simp: getAI_def Let_def split: option.splits if_splits dest: truthy_defined)

lemma parseResponse_Inr:
  "parseResponse parse r = Inr v \<Longrightarrow> \<exists>t. t \<noteq> [] \<and> r = Inr (Some t) \<and> parse t = Inr v"
  by (auto simp: parseResponse_def split: sum.splits option.splits if_splits)

lemma generateContent_Inr_ready:
  "generateContent p w req = (w', r) \<Longrightarrow> parseResponse parse r = Inr v
     \<Longrightarrow> aiInstance w' \<noteq> None \<and> r = p req"
  by (auto simp: generateContent_def getAI_def parseResponse_def Let_def
           split: sum.splits option.splits if_splits dest: truthy_defined)

lemma snd_generateSingleQuestion:
  "snd (generateSingleQuestion p parse w tpc i n)
     = parseResponse parse (snd (generateContent p w (Generate_req tpc i n)))"
  by (simp add: generateSingleQuestion_def case_prod_beta)

lemma fst_generateSingleQuestion:
  "fst (generateSingleQuestion p parse w tpc i n) = fst (generateContent p w (Generate_req tpc i n))"
  by (simp add: generateSingleQuestion_def case_prod_beta)

lemma snd_fetchSingleQuestionByTitle:
  "snd (fetchSingleQuestionByTitle p parse w ttl i n)
     = parseResponse parse (snd (generateContent p w (Fetch_req ttl i n)))"
  by (simp add: fetchSingleQuestionByTitle_def case_prod_beta)

lemma fst_fetchSingleQuestionByTitle:
  "fst (fetchSingleQuestionByTitle p parse w ttl i n) = fst (generateContent p w (Fetch_req ttl i n))"
  by (simp add: fetchSingleQuestionByTitle_def case_prod_beta)

lemma snd_runCodeMock:
  "snd (runCodeMock p parse w cde lang q)
     = parseResponse parse
         (snd (generateContent p w (Run_req (title q) (description q) (examples q) lang cde)))"
  by (simp add: runCodeMock_def case_prod_beta)

lemma fst_runCodeMock:
  "fst (runCodeMock p parse w cde lang q)
     = fst (generateContent p w (Run_req (title q) (description q) (examples q) lang cde))"
  by (simp add: runCodeMock_def case_prod_beta)

lemma snd_fetchItem:
  "snd (fetchItem p parse w b i) = parseResponse parse (snd (generateContent p w (request_of b i)))"
  by (cases b) (simp_all add: snd_generateSingleQuestion snd_fetchSingleQuestionByTitle)

lemma fst_fetchItem:
  "fst (fetchItem p parse w b i) = fst (generateContent p w (request_of b i))"
  by (cases b) (simp_all add: fst_generateSingleQuestion fst_fetchSingleQuestionByTitle)

lemma fetchItem_ready:
  "aiInstance w \<noteq> None
     \<Longrightarrow> fetchItem p parse w b i = (w\<lparr>issued := issued w @ [request_of b i]\<rparr>, answer p parse b i)"
  using snd_fetchItem [of p parse w b i] fst_fetchItem [of p parse w b i]
  by (simp add: generateContent_ready answer_def prod_eq_iff)

lemma fetchItem_parsed:
  "snd (fetchItem p parse w b i) = Inr q \<Longrightarrow> \<exists>body. parse body = Inr q"
  by (auto simp: snd_fetchItem dest: parseResponse_Inr)

lemma fetchItem_issued:
  "issued (fst (fetchItem p parse w b i)) = issued w
     \<or> issued (fst (fetchItem p parse w b i)) = issued w @ [request_of b i]"
  using generateContent_issued [of p w "request_of b i"]
  by (cases "generateContent p w (request_of b i)") (auto simp: fst_fetchItem)

lemma session_setLoading [simp]: "session (setLoading b v st) = session st"
  by (cases b) simp_all

lemma view_setLoading [simp]: "view (setLoading b v st) = view st"
  by (cases b) simp_all

lemma app_loop [simp]: "app (loop p parse k b i sys) = app sys"
  by (simp add: loop_def Let_def case_prod_beta)

lemma changeLanguage_session:
  "session (snd (changeLanguage p lang w st)) = map_option (\<lambda>s. s\<lparr>language := lang\<rparr>) (session st)"
  by (auto simp: changeLanguage_def handleTranslateSolution_def Let_def
           split: option.splits prod.splits)

text \<open>What a build changes of the cells when it goes on.\<close>

lemma resume_session:
  "session (app (resume p parse k sys)) = session (app sys)
   \<or> (\<exists>t sid q. t \<in> set (pending sys) \<and> outcome t = Inr q
         \<and> session (app (resume p parse k sys)) = Some (newSession sid q))
   \<or> (\<exists>t q. t \<in> set (pending sys) \<and> outcome t = Inr q
         \<and> session (app (resume p parse k sys)) = appendQuestion q (session (app sys)))"
proof (cases "k < length (pending sys)")
  case False
  then show ?thesis by (simp add: resume_def)
next
  case True
  then have mem: "pending sys ! k \<in> set (pending sys)" by simp
  show ?thesis
  proof (cases "point (pending sys ! k)")
    case (First sid)
    show ?thesis
    proof (cases "outcome (pending sys ! k)")
      case (Inl e)
      with True First show ?thesis by (simp add: resume_def Let_def)
    next
      case (Inr q)
      with True First have "session (app (resume p parse k sys)) = Some (newSession sid q)"
        by (simp add: resume_def Let_def)
      with mem Inr show ?thesis by blast
    qed
  next
    case (Loop i)
    show ?thesis
    proof (cases "outcome (pending sys ! k)")
      case (Inl e)
      with True Loop show ?thesis by (simp add: resume_def Let_def)
    next
      case (Inr q)
      with True Loop
      have "session (app (resume p parse k sys)) = appendQuestion q (session (app sys))"
        by (simp add: resume_def Let_def)
      with mem Inr show ?thesis by blast
    qed
  qed
qed

text \<open>What an event changes of the session: nothing, or the language, the index or a
  buffer, or it is a new session of one question, or the session with one question
  appended.\<close>

lemma handleStart_app:
  "session (app (handleStartMockTest p parse sid tpc sys)) = session (app sys)"
  "session (app (handleImportQuestions p parse sid sys)) = session (app sys)"
  by (simp_all add: handleStartMockTest_def handleImportQuestions_def Let_def case_prod_beta)

lemma handleRunCode_session:
  "handleRunCode p parse w st = Inr (w', st') \<Longrightarrow> session st' = session st"
  by (auto simp: handleRunCode_def Let_def split: if_splits option.splits prod.splits sum.splits)

lemma handleSaveCustomKey_session:
  "session (snd (handleSaveCustomKey w st)) = session st \<or> session (snd (handleSaveCustomKey w st)) = None"
  by (simp add: handleSaveCustomKey_def load_def checkApiKey_def Let_def)

section \<open>Moving between questions\<close>

lemma valid_index_session: "session st' = session st \<Longrightarrow> valid_index st' = valid_index st"
  by (simp add: valid_index_def)

lemma valid_index_newSession: "session st = Some (newSession sid q) \<Longrightarrow> valid_index st"
  by (simp add: valid_index_def newSession_def)

lemma valid_index_appendQuestion:
  "valid_index st \<Longrightarrow> session st' = appendQuestion q (session st) \<Longrightarrow> valid_index st'"
  by (auto simp: valid_index_def appendQuestion_def split: option.splits)

lemma nextQuestion_valid_index: "valid_index st \<Longrightarrow> valid_index (nextQuestion st)"
  by (auto simp: valid_index_def nextQuestion_def split: option.splits)

lemma prevQuestion_valid_index: "valid_index st \<Longrightarrow> valid_index (prevQuestion st)"
  by (auto simp: valid_index_def prevQuestion_def split: option.splits)

lemma changeLanguage_valid_index:
  "valid_index st \<Longrightarrow> valid_index (snd (changeLanguage p lang w st))"
  using changeLanguage_session [of p lang w st]
  by (auto simp: valid_index_def split: option.splits)

lemma updateCode_valid_index:
  "valid_index st \<Longrightarrow> updateCode c st = Inr st' \<Longrightarrow> valid_index st'"
  by (auto simp: valid_index_def updateCode_def Let_def split: option.splits if_splits)

lemma resume_valid_index:
  assumes v: "valid_index (app sys)"
  shows "valid_index (app (resume p parse k sys))"
  using resume_session [of p parse k sys]
proof (elim disjE exE conjE)
  assume "session (app (resume p parse k sys)) = session (app sys)"
  from valid_index_session [OF this] v show ?thesis by simp
next
  fix t sid q
  assume "session (app (resume p parse k sys)) = Some (newSession sid q)"
  then show ?thesis by (rule valid_index_newSession)
next
  fix t q
  assume "session (app (resume p parse k sys)) = appendQuestion q (session (app sys))"
  with v show ?thesis by (rule valid_index_appendQuestion)
qed

lemma perform_valid_index:
  assumes v: "valid_index (app sys)"
  shows "valid_index (app (perform p parse parse' ev sys))"
proof (cases ev)
  case (StartMockTest tpc sid)
  with v show ?thesis by (simp add: valid_index_session [OF handleStart_app(1)])
next
  case (ImportQuestions sid)
  with v show ?thesis by (simp add: valid_index_session [OF handleStart_app(2)])
next
  case (Resume k)
  with v show ?thesis by (simp add: resume_valid_index)
next
  case (ChangeLanguage lang)
  with changeLanguage_valid_index [OF v, of p lang "facade sys"] show ?thesis
    by (simp add: case_prod_beta)
next
  case (UpdateCode c)
  with v updateCode_valid_index [OF v, of c] show ?thesis
    by (cases "updateCode c (app sys)") simp_all
next
  case NextQuestion
  with v show ?thesis by (simp add: nextQuestion_valid_index)
next
  case PrevQuestion
  with v show ?thesis by (simp add: prevQuestion_valid_index)
next
  case RunCode
  show ?thesis
  proof (cases "handleRunCode p parse' (facade sys) (app sys)")
    case (Inl e)
    with RunCode v show ?thesis by simp
  next
    case (Inr r)
    with handleRunCode_session [of p parse' "facade sys" "app sys" "fst r" "snd r"]
    have "session (snd r) = session (app sys)" by simp
    from valid_index_session [OF this] v have "valid_index (snd r)" by simp
    with RunCode Inr show ?thesis
      by (simp add: case_prod_beta)
  qed
next
  case SaveCustomKey
  with handleSaveCustomKey_session [of "facade sys" "app sys"] v show ?thesis
    by (auto simp: case_prod_beta valid_index_def)
next
  case (SetImportText s)
  with v show ?thesis by (simp add: valid_index_def)
next
  case (SetCustomApiKey s)
  with v show ?thesis by (simp add: valid_index_def)
next
  case (SetActiveTab t)
  with v show ?thesis by (simp add: valid_index_def)
next
  case (SetView x)
  with v show ?thesis by (simp add: valid_index_def)
qed

lemma run_valid_index:
  "valid_index (app sys) \<Longrightarrow> valid_index (app (run p parse parse' evs sys))"
  by (induction evs arbitrary: sys) (simp_all add: perform_valid_index)

text \<open>
  C7. \<^verbatim>\<open>nextQuestion\<close> at the last index and \<^verbatim>\<open>prevQuestion\<close> at index 0 leave the state as
  it is: the index neither wraps around nor leaves the list, and nothing is raised.
  Consequently the index of a session stays inside its list of questions: a new session
  starts at index 0 of one question, and every event keeps the index valid, whatever
  the order of the events: the two moves, the change of language, the update of a
  buffer, the start of a build and each of its steps, with other builds and handlers in
  between.
\<close>

theorem advance_clamped:
  "(session st = Some s \<and> currentQuestionIndex s = int (length (questions s)) - 1
      \<longrightarrow> nextQuestion st = st)
   \<and> (session st = Some s \<and> currentQuestionIndex s = 0 \<longrightarrow> prevQuestion st = st)
   \<and> valid_index (st\<lparr>session := Some (newSession sid q)\<rparr>)
   \<and> (valid_index st \<longrightarrow>
        valid_index (nextQuestion st) \<and> valid_index (prevQuestion st)
        \<and> valid_index (snd (changeLanguage p lang w st))
        \<and> (updateCode c st = Inr st' \<longrightarrow> valid_index st'))
   \<and> (valid_index (app sys) \<longrightarrow>
        valid_index (app (handleImportQuestions p parse sid sys))
        \<and> valid_index (app (handleStartMockTest p parse sid tpc sys))
        \<and> valid_index (app (resume p parse k sys))
        \<and> valid_index (app (perform p parse parse' ev sys))
        \<and> valid_index (app (run p parse parse' evs sys)))"
proof -
  have new: "valid_index (st\<lparr>session := Some (newSession sid q)\<rparr>)"
    by (simp add: valid_index_def newSession_def)
  have last: "session st = Some s \<and> currentQuestionIndex s = int (length (questions s)) - 1
      \<longrightarrow> nextQuestion st = st"
    by (simp add: nextQuestion_def)
  have first: "session st = Some s \<and> currentQuestionIndex s = 0 \<longrightarrow> prevQuestion st = st"
    by (simp add: prevQuestion_def)
  have kept: "valid_index (nextQuestion st) \<and> valid_index (prevQuestion st)
        \<and> valid_index (snd (changeLanguage p lang w st))
        \<and> (updateCode c st = Inr st' \<longrightarrow> valid_index st')"
    if v: "valid_index st"
  proof (intro conjI impI)
    show "valid_index (nextQuestion st)" by (rule nextQuestion_valid_index [OF v])
    show "valid_index (prevQuestion st)" by (rule prevQuestion_valid_index [OF v])
    show "valid_index (snd (changeLanguage p lang w st))"
      by (rule changeLanguage_valid_index [OF v])
    show "valid_index st'" if "updateCode c st = Inr st'"
      by (rule updateCode_valid_index [OF v that])
  qed
  have events: "valid_index (app (handleImportQuestions p parse sid sys))
        \<and> valid_index (app (handleStartMockTest p parse sid tpc sys))
        \<and> valid_index (app (resume p parse k sys))
        \<and> valid_index (app (perform p parse parse' ev sys))
        \<and> valid_index (app (run p parse parse' evs sys))"
    if v: "valid_index (app sys)"
  proof (intro conjI)
    show "valid_index (app (handleImportQuestions p parse sid sys))"
      using perform_valid_index [OF v, of p parse parse' "ImportQuestions sid"] by simp
    show "valid_index (app (handleStartMockTest p parse sid tpc sys))"
      using perform_valid_index [OF v, of p parse parse' "StartMockTest tpc sid"] by simp
    show "valid_index (app (resume p parse k sys))" by (rule resume_valid_index [OF v])
    show "valid_index (app (perform p parse parse' ev sys))" by (rule perform_valid_index [OF v])
    show "valid_index (app (run p parse parse' evs sys))" by (rule run_valid_index [OF v])
  qed
  from new last first kept events show ?thesis by blast
qed

theorem advance_clamped_witness:
  "nextQuestion (example_app (Some (example_session\<lparr>currentQuestionIndex := 1\<rparr>)))
     = example_app (Some (example_session\<lparr>currentQuestionIndex := 1\<rparr>))
   \<and> prevQuestion (example_app (Some example_session)) = example_app (Some example_session)
   \<and> valid_index (example_app (Some example_session))
   \<and> valid_index (nextQuestion (example_app (Some example_session)))
   \<and> currentQuestionIndex (the (session (nextQuestion (example_app (Some example_session))))) = 1
   \<and> valid_index (snd (changeLanguage provider_down Python example_service
                          (example_app (Some example_session))))
   \<and> valid_index (example_app (Some example_edited))
   \<and> valid_index (app (run example_provider example_parse example_run_parse
                          [SetImportText example_import, ImportQuestions ''abc'', Resume 0,
                           NextQuestion, Resume 0, Resume 0]
                          (example_system (example_app (Some example_session)))))"
proof -
  let ?last = "example_session\<lparr>currentQuestionIndex := 1\<rparr>"
  let ?st = "example_app (Some example_session)"
  have last: "session (example_app (Some ?last)) = Some ?last
              \<and> currentQuestionIndex ?last = int (length (questions ?last)) - 1"
    by (simp add: example_defs)
  have first: "session ?st = Some example_session \<and> currentQuestionIndex example_session = 0"
    by (simp add: example_defs)
  have v: "valid_index ?st" "valid_index (app (example_system ?st))"
    by (simp_all add: valid_index_def example_defs example_system_def)
  have moved: "currentQuestionIndex (the (session (nextQuestion ?st))) = 1"
    by (simp add: nextQuestion_def example_defs)
  have a: "nextQuestion (example_app (Some ?last)) = example_app (Some ?last)"
    by (rule advance_clamped [where st = "example_app (Some ?last)" and s = ?last,
          THEN conjunct1, THEN mp, OF last])
  have b: "prevQuestion ?st = ?st"
    by (rule advance_clamped [where st = ?st and s = example_session,
          THEN conjunct2, THEN conjunct1, THEN mp, OF first])
  note kept = advance_clamped [where st = ?st and c = "Some ''return 1;''"
      and st' = "example_app (Some example_edited)" and p = provider_down and lang = Python
      and w = example_service,
      THEN conjunct2, THEN conjunct2, THEN conjunct2, THEN conjunct1, THEN mp, OF v(1)]
  have c: "valid_index (nextQuestion ?st)"
    by (rule kept [THEN conjunct1])
  have d: "valid_index (snd (changeLanguage provider_down Python example_service ?st))"
    by (rule kept [THEN conjunct2, THEN conjunct2, THEN conjunct1])
  have e: "valid_index (example_app (Some example_edited))"
    by (rule kept [THEN conjunct2, THEN conjunct2, THEN conjunct2, THEN mp,
          OF example_update])
  have f: "valid_index (app (run example_provider example_parse example_run_parse
                          [SetImportText example_import, ImportQuestions ''abc'', Resume 0,
                           NextQuestion, Resume 0, Resume 0]
                          (example_system ?st)))"
    by (rule advance_clamped [where sys = "example_system ?st",
          THEN conjunct2, THEN conjunct2, THEN conjunct2, THEN conjunct2, THEN mp, OF v(2),
          THEN conjunct2, THEN conjunct2, THEN conjunct2, THEN conjunct2])
  from a b v(1) c moved d e f show ?thesis by (intro conjI)
qed

section \<open>Changing the language\<close>

text \<open>
  C8. \<^verbatim>\<open>changeLanguage\<close> writes the language of the session and nothing else of it: the
  session afterwards is the session before with the new language, so the identifier,
  the questions, the index and every buffer of \<^verbatim>\<open>userCodes\<close> are the ones before. With no
  session the handler does nothing.
\<close>

theorem changeLanguage_only_language:
  "session (snd (changeLanguage p lang w st))
     = map_option (\<lambda>s. \<lparr>id_s = id_s s, questions = questions s,
                        currentQuestionIndex = currentQuestionIndex s,
                        userCodes = userCodes s, language = lang\<rparr>) (session st)"
  by (cases "session st") (simp_all add: changeLanguage_session)

section \<open>Writing a buffer\<close>

text \<open>
  C9. \<^verbatim>\<open>updateCode\<close> is idempotent: when it has written a code into the buffer of the
  current question and language, writing the same code again gives the same state.
\<close>

theorem updateCode_idempotent:
  "updateCode c st = Inr st' \<Longrightarrow> updateCode c st' = Inr st'"
  by (auto simp: updateCode_def Let_def split: option.splits if_splits)

theorem updateCode_idempotent_witness:
  "updateCode (Some ''return 1;'') (example_app (Some example_session))
     = Inr (example_app (Some example_edited))
   \<and> updateCode (Some ''return 1;'') (example_app (Some example_edited))
     = Inr (example_app (Some example_edited))"
  using updateCode_idempotent [OF example_update] example_update
  by (intro conjI)

text \<open>
  C10. \<^verbatim>\<open>updateCode\<close> with \<^verbatim>\<open>undefined\<close> or with the empty string returns at once and
  leaves the state as it is, also for a question of the session. So \<^verbatim>\<open>updateCode\<close> never
  empties a buffer: a buffer that is the empty string afterwards was the empty string
  before.
\<close>

theorem updateCode_empty_noop:
  "updateCode None st = Inr st
   \<and> updateCode (Some []) st = Inr st
   \<and> (updateCode c st = Inr st' \<and> session st' = Some s' \<and> userCodes s' k = Some b' \<and> b' l = Some []
        \<longrightarrow> (\<exists>s b. session st = Some s \<and> userCodes s k = Some b \<and> b l = Some []))"
proof -
  have "updateCode None st = Inr st" "updateCode (Some []) st = Inr st"
    by (simp_all add: updateCode_def split: option.splits)
  moreover have "\<exists>s b. session st = Some s \<and> userCodes s k = Some b \<and> b l = Some []"
    if "updateCode c st = Inr st'" "session st' = Some s'" "userCodes s' k = Some b'" "b' l = Some []"
    using that by (auto simp: updateCode_def Let_def split: option.splits if_splits)
  ultimately show ?thesis by blast
qed

theorem updateCode_empty_noop_witness:
  "updateCode (Some []) (example_app (Some example_session)) = Inr (example_app (Some example_session))
   \<and> updateCode None (example_app (Some example_session)) = Inr (example_app (Some example_session))
   \<and> updateCode (Some ''return 1;'')
        (example_app (Some (example_session\<lparr>userCodes :=
           [''q1'' \<mapsto> [Java \<mapsto> ''int x;''], ''q2'' \<mapsto> [Java \<mapsto> []]]\<rparr>)))
       = Inr (example_app (Some (example_session\<lparr>userCodes :=
           [''q1'' \<mapsto> [Java \<mapsto> ''return 1;''], ''q2'' \<mapsto> [Java \<mapsto> []]]\<rparr>)))
   \<and> the (userCodes (the (session (example_app (Some (example_session\<lparr>userCodes :=
           [''q1'' \<mapsto> [Java \<mapsto> ''int x;''], ''q2'' \<mapsto> [Java \<mapsto> []]]\<rparr>))))) ''q2'') Java
       = Some []"
proof -
  let ?s0 = "example_session\<lparr>userCodes :=
               [''q1'' \<mapsto> [Java \<mapsto> ''int x;''], ''q2'' \<mapsto> [Java \<mapsto> []]]\<rparr>"
  let ?s1 = "example_session\<lparr>userCodes :=
               [''q1'' \<mapsto> [Java \<mapsto> ''return 1;''], ''q2'' \<mapsto> [Java \<mapsto> []]]\<rparr>"
  have upd: "updateCode (Some ''return 1;'') (example_app (Some ?s0)) = Inr (example_app (Some ?s1))"
    by (simp add: updateCode_def at_index_def Let_def example_defs fun_upd_twist)
  have after: "session (example_app (Some ?s1)) = Some ?s1
               \<and> userCodes ?s1 ''q2'' = Some [Java \<mapsto> []] \<and> [Java \<mapsto> []] Java = Some []"
    by (simp add: example_defs)
  from updateCode_empty_noop [of "example_app (Some ?s0)" "Some ''return 1;''"
      "example_app (Some ?s1)" ?s1 "''q2''" "[Java \<mapsto> []]" Java] upd after
  have "\<exists>s b. session (example_app (Some ?s0)) = Some s
              \<and> userCodes s ''q2'' = Some b \<and> b Java = Some []"
    by blast
  then have before: "the (userCodes (the (session (example_app (Some ?s0)))) ''q2'') Java = Some []"
    by auto
  from updateCode_empty_noop [of "example_app (Some example_session)"]
  have noop: "updateCode (Some []) (example_app (Some example_session))
                = Inr (example_app (Some example_session))"
    "updateCode None (example_app (Some example_session)) = Inr (example_app (Some example_session))"
    by blast+
  from noop upd before show ?thesis by (intro conjI)
qed

section \<open>Seeding the buffers\<close>

lemma entries_present_session:
  "session st' = session st \<Longrightarrow> entries_present st' = entries_present st"
  by (simp add: entries_present_def)

lemma entries_present_newSession: "session st = Some (newSession sid q) \<Longrightarrow> entries_present st"
  by (simp add: entries_present_def codes_present_def newSession_def)

lemma entries_present_appendQuestion:
  "entries_present st \<Longrightarrow> session st' = appendQuestion q (session st) \<Longrightarrow> entries_present st'"
  by (auto simp: entries_present_def codes_present_def appendQuestion_def list_all_iff
           split: option.splits)

lemma entries_present_changeLanguage:
  "entries_present st \<Longrightarrow> entries_present (snd (changeLanguage p lang w st))"
  using changeLanguage_session [of p lang w st]
  by (auto simp: entries_present_def codes_present_def split: option.splits)

lemma entries_present_nextQuestion: "entries_present st \<Longrightarrow> entries_present (nextQuestion st)"
  by (auto simp: entries_present_def codes_present_def nextQuestion_def split: option.splits)

lemma entries_present_prevQuestion: "entries_present st \<Longrightarrow> entries_present (prevQuestion st)"
  by (auto simp: entries_present_def codes_present_def prevQuestion_def split: option.splits)

lemma entries_present_updateCode:
  "entries_present st \<Longrightarrow> updateCode c st = Inr st' \<Longrightarrow> entries_present st'"
  by (auto simp: entries_present_def codes_present_def updateCode_def Let_def list_all_iff
           split: option.splits if_splits)

lemma entries_present_resume:
  assumes v: "entries_present (app sys)"
  shows "entries_present (app (resume p parse k sys))"
  using resume_session [of p parse k sys]
proof (elim disjE exE conjE)
  assume "session (app (resume p parse k sys)) = session (app sys)"
  from entries_present_session [OF this] v show ?thesis by simp
next
  fix t sid q
  assume "session (app (resume p parse k sys)) = Some (newSession sid q)"
  then show ?thesis by (rule entries_present_newSession)
next
  fix t q
  assume "session (app (resume p parse k sys)) = appendQuestion q (session (app sys))"
  with v show ?thesis by (rule entries_present_appendQuestion)
qed

lemma entries_present_perform:
  assumes v: "entries_present (app sys)"
  shows "entries_present (app (perform p parse parse' ev sys))"
proof (cases ev)
  case (StartMockTest tpc sid)
  with v show ?thesis by (simp add: entries_present_session [OF handleStart_app(1)])
next
  case (ImportQuestions sid)
  with v show ?thesis by (simp add: entries_present_session [OF handleStart_app(2)])
next
  case (Resume k)
  with v show ?thesis by (simp add: entries_present_resume)
next
  case (ChangeLanguage lang)
  with entries_present_changeLanguage [OF v, of p lang "facade sys"] show ?thesis
    by (simp add: case_prod_beta)
next
  case (UpdateCode c)
  with v entries_present_updateCode [OF v, of c] show ?thesis
    by (cases "updateCode c (app sys)") simp_all
next
  case NextQuestion
  with v show ?thesis by (simp add: entries_present_nextQuestion)
next
  case PrevQuestion
  with v show ?thesis by (simp add: entries_present_prevQuestion)
next
  case RunCode
  show ?thesis
  proof (cases "handleRunCode p parse' (facade sys) (app sys)")
    case (Inl e)
    with RunCode v show ?thesis by simp
  next
    case (Inr r)
    with handleRunCode_session [of p parse' "facade sys" "app sys" "fst r" "snd r"]
    have "session (snd r) = session (app sys)" by simp
    from entries_present_session [OF this] v have "entries_present (snd r)" by simp
    with RunCode Inr show ?thesis
      by (simp add: case_prod_beta)
  qed
next
  case SaveCustomKey
  with handleSaveCustomKey_session [of "facade sys" "app sys"] v show ?thesis
    by (auto simp: case_prod_beta entries_present_def)
next
  case (SetImportText s)
  with v show ?thesis by (simp add: entries_present_def)
next
  case (SetCustomApiKey s)
  with v show ?thesis by (simp add: entries_present_def)
next
  case (SetActiveTab t)
  with v show ?thesis by (simp add: entries_present_def)
next
  case (SetView x)
  with v show ?thesis by (simp add: entries_present_def)
qed

lemma entries_present_run:
  "entries_present (app sys) \<Longrightarrow> entries_present (app (run p parse parse' evs sys))"
  by (induction evs arbitrary: sys) (simp_all add: entries_present_perform)

text \<open>The same for buffers in the four languages, when every question that is delivered
  has its four starter codes.\<close>

lemma buffers_complete_session:
  "session st' = session st \<Longrightarrow> buffers_complete st' = buffers_complete st"
  by (simp add: buffers_complete_def)

lemma buffers_complete_newSession:
  "has_all_languages (starterCode q) \<Longrightarrow> session st = Some (newSession sid q)
     \<Longrightarrow> buffers_complete st"
  by (simp add: buffers_complete_def codes_seeded_def newSession_def)

lemma buffers_complete_appendQuestion:
  "buffers_complete st \<Longrightarrow> has_all_languages (starterCode q)
     \<Longrightarrow> session st' = appendQuestion q (session st) \<Longrightarrow> buffers_complete st'"
  by (auto simp: buffers_complete_def codes_seeded_def appendQuestion_def list_all_iff
           split: option.splits)

lemma buffers_complete_changeLanguage:
  "buffers_complete st \<Longrightarrow> buffers_complete (snd (changeLanguage p lang w st))"
  using changeLanguage_session [of p lang w st]
  by (auto simp: buffers_complete_def codes_seeded_def split: option.splits)

lemma buffers_complete_nextQuestion: "buffers_complete st \<Longrightarrow> buffers_complete (nextQuestion st)"
  by (auto simp: buffers_complete_def codes_seeded_def nextQuestion_def split: option.splits)

lemma buffers_complete_prevQuestion: "buffers_complete st \<Longrightarrow> buffers_complete (prevQuestion st)"
  by (auto simp: buffers_complete_def codes_seeded_def prevQuestion_def split: option.splits)

lemma has_all_languages_upd: "has_all_languages b \<Longrightarrow> has_all_languages (b(l \<mapsto> c))"
  by (simp add: has_all_languages_def)

lemma codes_seeded_update:
  assumes "codes_seeded s" "userCodes s k = Some b"
  shows "codes_seeded (s\<lparr>userCodes := (userCodes s)(k \<mapsto> b(l \<mapsto> c))\<rparr>)"
  using assms
  by (auto simp: codes_seeded_def list_all_iff has_all_languages_upd split: option.splits)

lemma buffers_complete_updateCode:
  assumes "buffers_complete st" "updateCode c st = Inr st'"
  shows "buffers_complete st'"
proof (cases "st' = st")
  case True
  with assms show ?thesis by simp
next
  case False
  with assms(2) obtain s cq c' where s: "session st = Some s"
    and cq: "at_index (questions s) (currentQuestionIndex s) = Some cq"
    and c': "c = Some c'"
    and st': "st' = st\<lparr>session := Some (s\<lparr>userCodes := (userCodes s)(id_q cq \<mapsto>
                  (case userCodes s (id_q cq) of None \<Rightarrow> Map.empty | Some b \<Rightarrow> b)(language s \<mapsto> c'))\<rparr>)\<rparr>"
    by (auto simp: updateCode_def Let_def split: option.splits if_splits)
  from cq have "cq \<in> set (questions s)"
    by (auto simp: at_index_def split: if_splits)
  with assms(1) s obtain b where b: "userCodes s (id_q cq) = Some b"
    by (auto simp: buffers_complete_def codes_seeded_def list_all_iff split: option.splits)
  from assms(1) s have "codes_seeded s" by (simp add: buffers_complete_def)
  from codes_seeded_update [OF this b] st' b show ?thesis
    by (simp add: buffers_complete_def)
qed

lemma outcomes_complete_member:
  "outcomes_complete sys \<Longrightarrow> t \<in> set (pending sys) \<Longrightarrow> outcome t = Inr q
     \<Longrightarrow> has_all_languages (starterCode q)"
  by (auto simp: outcomes_complete_def list_all_iff split: sum.splits)

lemma buffers_complete_resume:
  assumes v: "buffers_complete (app sys)" and o: "outcomes_complete sys"
  shows "buffers_complete (app (resume p parse k sys))"
  using resume_session [of p parse k sys]
proof (elim disjE exE conjE)
  assume "session (app (resume p parse k sys)) = session (app sys)"
  from buffers_complete_session [OF this] v show ?thesis by simp
next
  fix t sid q
  assume t: "t \<in> set (pending sys)" "outcome t = Inr q"
    and s: "session (app (resume p parse k sys)) = Some (newSession sid q)"
  from outcomes_complete_member [OF o t] show ?thesis
    using s by (rule buffers_complete_newSession)
next
  fix t q
  assume t: "t \<in> set (pending sys)" "outcome t = Inr q"
    and s: "session (app (resume p parse k sys)) = appendQuestion q (session (app sys))"
  from v outcomes_complete_member [OF o t] s show ?thesis
    by (rule buffers_complete_appendQuestion)
qed

lemma list_all_update: "list_all P xs \<Longrightarrow> P x \<Longrightarrow> list_all P (xs[k := x])"
  by (auto simp: list_all_iff dest!: subsetD [OF set_update_subset_insert])

lemma set_take_drop: "set (take k xs @ drop (Suc k) xs) \<subseteq> set xs"
  by (auto dest: in_set_takeD in_set_dropD)

lemma outcomes_complete_loop:
  assumes typed: "\<forall>t q. parse t = Inr q \<longrightarrow> has_all_languages (starterCode q)"
    and o: "outcomes_complete sys"
  shows "outcomes_complete (loop p parse k b i sys)"
proof (cases "i < items b")
  case False
  with o set_take_drop [of k "pending sys"] show ?thesis
    by (auto simp: loop_def outcomes_complete_def list_all_iff)
next
  case True
  have new: "case snd (fetchItem p parse (facade sys) b i) of
               Inl e \<Rightarrow> True | Inr q \<Rightarrow> has_all_languages (starterCode q)"
    using typed fetchItem_parsed [of p parse "facade sys" b i]
    by (auto split: sum.splits)
  with True o show ?thesis
    by (simp add: loop_def outcomes_complete_def case_prod_beta Let_def list_all_update)
qed

lemma pending_app_update [simp]: "outcomes_complete (sys\<lparr>app := st\<rparr>) = outcomes_complete sys"
  by (simp add: outcomes_complete_def)

lemma outcomes_complete_resume:
  assumes typed: "\<forall>t q. parse t = Inr q \<longrightarrow> has_all_languages (starterCode q)"
    and o: "outcomes_complete sys"
  shows "outcomes_complete (resume p parse k sys)"
proof (cases "k < length (pending sys)")
  case False
  with o show ?thesis by (simp add: resume_def)
next
  case True
  have removed: "outcomes_complete
      (sys\<lparr>app := st, pending := take k (pending sys) @ drop (Suc k) (pending sys)\<rparr>)" for st
    using o set_take_drop [of k "pending sys"]
    by (auto simp: outcomes_complete_def list_all_iff)
  have looped: "outcomes_complete (loop p parse k b i (sys\<lparr>app := st\<rparr>))" for b i st
    by (rule outcomes_complete_loop [OF typed]) (simp add: o)
  have looped': "outcomes_complete (loop p parse k b i sys)" for b i
    by (rule outcomes_complete_loop [OF typed o])
  from True removed looped looped' show ?thesis
    by (simp add: resume_def Let_def split: point.splits sum.splits)
qed

lemma outcomes_complete_start:
  assumes typed: "\<forall>t q. parse t = Inr q \<longrightarrow> has_all_languages (starterCode q)"
    and o: "outcomes_complete sys"
  shows "outcomes_complete (handleStartMockTest p parse sid tpc sys)"
    and "outcomes_complete (handleImportQuestions p parse sid sys)"
proof -
  have new: "case snd (fetchItem p parse (facade sys) b 0) of
               Inl e \<Rightarrow> True | Inr q \<Rightarrow> has_all_languages (starterCode q)" for b
    using typed fetchItem_parsed [of p parse "facade sys" b 0]
    by (auto split: sum.splits)
  show "outcomes_complete (handleStartMockTest p parse sid tpc sys)"
    using o new [of "MockTest tpc"]
    by (simp add: handleStartMockTest_def Let_def case_prod_beta outcomes_complete_def)
  show "outcomes_complete (handleImportQuestions p parse sid sys)"
    using o new [of "ImportTitles (filter (\<lambda>t. trim t \<noteq> [])
                       (split (CHR 0x0A) (importText (app sys))))"]
    by (simp add: handleImportQuestions_def Let_def case_prod_beta outcomes_complete_def)
qed

lemma complete_perform:
  assumes typed: "\<forall>t q. parse t = Inr q \<longrightarrow> has_all_languages (starterCode q)"
    and o: "outcomes_complete sys" and v: "buffers_complete (app sys)"
  shows "outcomes_complete (perform p parse parse' ev sys)
         \<and> buffers_complete (app (perform p parse parse' ev sys))"
proof (cases ev)
  case (StartMockTest tpc sid)
  with v outcomes_complete_start(1) [OF typed o] show ?thesis
    by (simp add: buffers_complete_session [OF handleStart_app(1)])
next
  case (ImportQuestions sid)
  with v outcomes_complete_start(2) [OF typed o] show ?thesis
    by (simp add: buffers_complete_session [OF handleStart_app(2)])
next
  case (Resume k)
  with outcomes_complete_resume [OF typed o] buffers_complete_resume [OF v o] show ?thesis
    by simp
next
  case (ChangeLanguage lang)
  with o buffers_complete_changeLanguage [OF v, of p lang "facade sys"] show ?thesis
    by (simp add: case_prod_beta outcomes_complete_def)
next
  case (UpdateCode c)
  with o v buffers_complete_updateCode [OF v, of c] show ?thesis
    by (cases "updateCode c (app sys)") simp_all
next
  case NextQuestion
  with o v show ?thesis by (simp add: buffers_complete_nextQuestion)
next
  case PrevQuestion
  with o v show ?thesis by (simp add: buffers_complete_prevQuestion)
next
  case RunCode
  show ?thesis
  proof (cases "handleRunCode p parse' (facade sys) (app sys)")
    case (Inl e)
    with RunCode o v show ?thesis by simp
  next
    case (Inr r)
    with handleRunCode_session [of p parse' "facade sys" "app sys" "fst r" "snd r"]
    have "session (snd r) = session (app sys)" by simp
    from buffers_complete_session [OF this] v have "buffers_complete (snd r)" by simp
    with RunCode Inr o show ?thesis
      by (simp add: case_prod_beta outcomes_complete_def)
  qed
next
  case SaveCustomKey
  with handleSaveCustomKey_session [of "facade sys" "app sys"] o v show ?thesis
    by (auto simp: case_prod_beta buffers_complete_def outcomes_complete_def)
next
  case (SetImportText s)
  with o v show ?thesis by (simp add: buffers_complete_def)
next
  case (SetCustomApiKey s)
  with o v show ?thesis by (simp add: buffers_complete_def)
next
  case (SetActiveTab t)
  with o v show ?thesis by (simp add: buffers_complete_def)
next
  case (SetView x)
  with o v show ?thesis by (simp add: buffers_complete_def)
qed

lemma complete_run:
  assumes typed: "\<forall>t q. parse t = Inr q \<longrightarrow> has_all_languages (starterCode q)"
  shows "outcomes_complete sys \<Longrightarrow> buffers_complete (app sys)
     \<Longrightarrow> outcomes_complete (run p parse parse' evs sys)
         \<and> buffers_complete (app (run p parse parse' evs sys))"
proof (induction evs arbitrary: sys)
  case Nil
  then show ?case by simp
next
  case (Cons ev evs)
  from complete_perform [OF typed Cons.prems, of p parse' ev]
  show ?case by (simp add: Cons.IH)
qed

text \<open>
  C5, as the code has it. A question is inserted, by the literal that creates the session
  and by the updater that appends, together with an entry of \<^verbatim>\<open>userCodes\<close> under its
  identifier that is its \<^verbatim>\<open>starterCode\<close> object itself: reading the entry back gives the
  starter code, for each language that the answer of the provider has, and no buffer for
  a language that it lacks. A build that goes on with a question does exactly that: the
  session is the new session of the question, or the current one with the question
  appended. Every event keeps an entry for every question of the
  session, whatever the order of the events. The entries have the four languages, and
  every event keeps them so, when every question that \<^verbatim>\<open>JSON.parse\<close> returns has its four
  starter codes; the code does not check that.
\<close>

theorem buffers_seeded_from_starterCode:
  "userCodes (newSession sid q) (id_q q) = Some (starterCode q)
   \<and> questions (newSession sid q) = [q]
   \<and> (\<exists>s'. appendQuestion q (Some s) = Some s' \<and> questions s' = questions s @ [q]
            \<and> userCodes s' (id_q q) = Some (starterCode q))
   \<and> (k < length (pending sys) \<and> outcome (pending sys ! k) = Inr q \<longrightarrow>
         session (app (resume p parse k sys))
           = (case point (pending sys ! k) of
                First sid' \<Rightarrow> Some (newSession sid' q)
              | Loop i \<Rightarrow> appendQuestion q (session (app sys))))
   \<and> (entries_present (app sys) \<longrightarrow>
         entries_present (app (perform p parse parse' ev sys))
         \<and> entries_present (app (run p parse parse' evs sys)))
   \<and> ((\<forall>t q'. parse t = Inr q' \<longrightarrow> has_all_languages (starterCode q'))
        \<and> outcomes_complete sys \<and> buffers_complete (app sys) \<longrightarrow>
         buffers_complete (app (perform p parse parse' ev sys))
         \<and> buffers_complete (app (run p parse parse' evs sys)))"
proof (intro conjI impI; (elim conjE)?)
  show "session (app (resume p parse k sys))
           = (case point (pending sys ! k) of
                First sid' \<Rightarrow> Some (newSession sid' q)
              | Loop i \<Rightarrow> appendQuestion q (session (app sys)))"
    if "k < length (pending sys)" "outcome (pending sys ! k) = Inr q"
    using that by (simp add: resume_def Let_def split: point.splits)
  show "userCodes (newSession sid q) (id_q q) = Some (starterCode q)"
    by (simp add: newSession_def)
  show "questions (newSession sid q) = [q]"
    by (simp add: newSession_def)
  show "\<exists>s'. appendQuestion q (Some s) = Some s' \<and> questions s' = questions s @ [q]
            \<and> userCodes s' (id_q q) = Some (starterCode q)"
    by (simp add: appendQuestion_def)
next
  assume v: "entries_present (app sys)"
  show "entries_present (app (perform p parse parse' ev sys))"
    by (rule entries_present_perform [OF v])
  show "entries_present (app (run p parse parse' evs sys))"
    by (rule entries_present_run [OF v])
next
  assume typed: "\<forall>t q'. parse t = Inr q' \<longrightarrow> has_all_languages (starterCode q')"
    and o: "outcomes_complete sys" and v: "buffers_complete (app sys)"
  show "buffers_complete (app (perform p parse parse' ev sys))"
    using complete_perform [OF typed o v] by simp
  show "buffers_complete (app (run p parse parse' evs sys))"
    using complete_run [OF typed o v] by simp
qed

theorem buffers_seeded_from_starterCode_witness:
  "entries_present (app (example_system (example_app (Some example_session))))
   \<and> buffers_complete (app (example_system (example_app (Some example_session))))
   \<and> outcomes_complete (example_system (example_app (Some example_session)))
   \<and> entries_present (app (perform example_provider example_parse example_run_parse
         (UpdateCode (Some ''return 1;'')) (example_system (example_app (Some example_session)))))
   \<and> entries_present (app (run example_provider example_parse example_run_parse
         [StartMockTest ''Arrays'' ''abc'', NextQuestion, Resume 0, ChangeLanguage Python, Resume 0]
         (example_system (example_app (Some example_session)))))
   \<and> buffers_complete (app (perform example_provider example_parse example_run_parse
         (UpdateCode (Some ''return 1;'')) (example_system (example_app (Some example_session)))))
   \<and> buffers_complete (app (run example_provider example_parse example_run_parse
         [StartMockTest ''Arrays'' ''abc'', NextQuestion, Resume 0, ChangeLanguage Python, Resume 0]
         (example_system (example_app (Some example_session)))))"
proof -
  let ?sys = "example_system (example_app (Some example_session))"
  let ?evs = "[StartMockTest ''Arrays'' ''abc'', NextQuestion, Resume 0, ChangeLanguage Python,
               Resume 0]"
  have e: "entries_present (app ?sys)"
    by (simp add: entries_present_def codes_present_def example_defs example_system_def)
  have h: "(\<forall>t q'. example_parse t = Inr q' \<longrightarrow> has_all_languages (starterCode q'))
           \<and> outcomes_complete ?sys \<and> buffers_complete (app ?sys)"
    by (auto simp: buffers_complete_def codes_seeded_def outcomes_complete_def
          has_all_languages_def example_parse_def example_defs example_system_def)
  note present = buffers_seeded_from_starterCode [where sys = ?sys and p = example_provider
      and parse = example_parse and parse' = example_run_parse
      and ev = "UpdateCode (Some ''return 1;'')" and evs = ?evs,
      THEN conjunct2, THEN conjunct2, THEN conjunct2, THEN conjunct2, THEN conjunct1, THEN mp,
      OF e]
  note complete = buffers_seeded_from_starterCode [where sys = ?sys and p = example_provider
      and parse = example_parse and parse' = example_run_parse
      and ev = "UpdateCode (Some ''return 1;'')" and evs = ?evs,
      THEN conjunct2, THEN conjunct2, THEN conjunct2, THEN conjunct2, THEN conjunct2, THEN mp,
      OF h]
  from e h present complete show ?thesis by (intro conjI) simp_all
qed

text \<open>
  The claim as it is written fails: nothing checks that the answer of the provider has
  the four starter codes. With an answer that has the one for java only, the session
  that the build creates has a question whose entry has no buffer for the other
  languages.
\<close>

theorem buffers_seeded_counterexample:
  "\<not> buffers_complete (app (run provider_text example_parse_java example_run_parse
        [StartMockTest ''Arrays'' ''abc'', Resume 0] (example_system (example_app None))))
   \<and> map id_q (questions (the (session (app (run provider_text example_parse_java example_run_parse
        [StartMockTest ''Arrays'' ''abc'', Resume 0] (example_system (example_app None)))))))
      = [''text'']
   \<and> the (userCodes (the (session (app (run provider_text example_parse_java example_run_parse
        [StartMockTest ''Arrays'' ''abc'', Resume 0] (example_system (example_app None))))))
          ''text'') Cpp = None"
  by (simp add: buffers_complete_def codes_seeded_def has_all_languages_def
        handleStartMockTest_def resume_def loop_def generateSingleQuestion_def
        generateContent_def getAI_def parseResponse_def newSession_def
        provider_text_def example_parse_java_def example_system_def example_service_def
        example_defs Let_def)

section \<open>A build whose first fetch fails\<close>

lemma take_drop_appended: "take (length xs) (xs @ [x]) @ drop (Suc (length xs)) (xs @ [x]) = xs"
  by simp

lemma resume_first_failure:
  assumes "k < length (pending sys)"
    and "pending sys ! k = \<lparr>builder = b, point = First sid, outcome = Inl e\<rparr>"
  shows "resume p parse k sys
           = sys\<lparr>app := setLoading b False ((app sys)\<lparr>error := Some (message_or e (fallback b))\<rparr>),
                 pending := take k (pending sys) @ drop (Suc k) (pending sys)\<rparr>"
  using assms by (simp add: resume_def Let_def)

text \<open>
  C4. When the fetch of item 0 fails, the build stores the message of the error (or its
  own text when the message is empty), clears its loading flag and is over. With nothing
  in between, the state is otherwise the state before the handler was called: the
  session is the one before (none, when there was none) and the view is the one before,
  not the practice screen, and the only request that can have been issued is the one
  for item 0 (none when the client could not be created). Whenever the failed build
  goes on, with whatever happened in between, it leaves the session, the view and the
  facade as they are, issues no request and does not wait again: no item after the
  first is fetched.
\<close>

theorem first_fetch_failure_aborts:
  "(\<not> apiKeyMissing (app sys)
      \<and> titles = filter (\<lambda>t. trim t \<noteq> []) (split (CHR 0x0A) (importText (app sys)))
      \<and> titles \<noteq> []
      \<and> fetchSingleQuestionByTitle p parse (facade sys) (titles ! 0) 0 (length titles) = (w1, Inl e)
     \<longrightarrow> handleImportQuestions p parse sid sys
           = \<lparr>facade = w1, app = (app sys)\<lparr>loadingImport := True, error := None\<rparr>,
              pending = pending sys @ [\<lparr>builder = ImportTitles titles, point = First sid,
                                         outcome = Inl e\<rparr>]\<rparr>
         \<and> resume p parse (length (pending sys)) (handleImportQuestions p parse sid sys)
           = \<lparr>facade = w1,
              app = (app sys)\<lparr>error := Some (message_or e
                                    ''Failed to import questions. Please try again.''),
                             loadingImport := False\<rparr>,
              pending = pending sys\<rparr>
         \<and> (issued w1 = issued (facade sys)
             \<or> issued w1 = issued (facade sys) @ [Fetch_req (titles ! 0) 0 (length titles)]))
   \<and> (\<not> apiKeyMissing (app sys)
      \<and> generateSingleQuestion p parse (facade sys) tpc 0 5 = (w2, Inl e')
     \<longrightarrow> handleStartMockTest p parse sid tpc sys
           = \<lparr>facade = w2, app = (app sys)\<lparr>loadingMockTest := True, error := None\<rparr>,
              pending = pending sys @ [\<lparr>builder = MockTest tpc, point = First sid,
                                         outcome = Inl e'\<rparr>]\<rparr>
         \<and> resume p parse (length (pending sys)) (handleStartMockTest p parse sid tpc sys)
           = \<lparr>facade = w2,
              app = (app sys)\<lparr>error := Some (message_or e'
                                    ''Failed to generate test. Please try again.''),
                             loadingMockTest := False\<rparr>,
              pending = pending sys\<rparr>
         \<and> (issued w2 = issued (facade sys)
             \<or> issued w2 = issued (facade sys) @ [Generate_req tpc 0 5]))
   \<and> (k < length (pending sys)
      \<and> pending sys ! k = \<lparr>builder = b, point = First sid, outcome = Inl e\<rparr>
     \<longrightarrow> resume p parse k sys
           = sys\<lparr>app := setLoading b False
                          ((app sys)\<lparr>error := Some (message_or e (fallback b))\<rparr>),
                 pending := take k (pending sys) @ drop (Suc k) (pending sys)\<rparr>
         \<and> facade (resume p parse k sys) = facade sys
         \<and> session (app (resume p parse k sys)) = session (app sys)
         \<and> view (app (resume p parse k sys)) = view (app sys))"
proof (intro conjI impI; (elim conjE)?)
  assume a: "\<not> apiKeyMissing (app sys)"
    "titles = filter (\<lambda>t. trim t \<noteq> []) (split (CHR 0x0A) (importText (app sys)))"
    "titles \<noteq> []"
    "fetchSingleQuestionByTitle p parse (facade sys) (titles ! 0) 0 (length titles) = (w1, Inl e)"
  let ?t = "\<lparr>builder = ImportTitles titles, point = First sid, outcome = Inl e\<rparr>"
  let ?started = "\<lparr>facade = w1, app = (app sys)\<lparr>loadingImport := True, error := None\<rparr>,
                   pending = pending sys @ [?t]\<rparr>"
  show start: "handleImportQuestions p parse sid sys = ?started"
    using a by (simp add: handleImportQuestions_def Let_def)
  have "resume p parse (length (pending sys)) ?started
          = ?started\<lparr>app := setLoading (ImportTitles titles) False
                             ((app ?started)\<lparr>error := Some (message_or e (fallback (ImportTitles titles)))\<rparr>),
                      pending := take (length (pending sys)) (pending ?started)
                                   @ drop (Suc (length (pending sys))) (pending ?started)\<rparr>"
    by (rule resume_first_failure) simp_all
  then show "resume p parse (length (pending sys)) (handleImportQuestions p parse sid sys)
           = \<lparr>facade = w1,
              app = (app sys)\<lparr>error := Some (message_or e
                                    ''Failed to import questions. Please try again.''),
                             loadingImport := False\<rparr>,
              pending = pending sys\<rparr>"
    by (simp add: start)
  show "issued w1 = issued (facade sys)
          \<or> issued w1 = issued (facade sys) @ [Fetch_req (titles ! 0) 0 (length titles)]"
    using fetchItem_issued [of p parse "facade sys" "ImportTitles titles" 0] a(4) by simp
next
  assume b: "\<not> apiKeyMissing (app sys)"
    "generateSingleQuestion p parse (facade sys) tpc 0 5 = (w2, Inl e')"
  let ?t = "\<lparr>builder = MockTest tpc, point = First sid, outcome = Inl e'\<rparr>"
  let ?started = "\<lparr>facade = w2, app = (app sys)\<lparr>loadingMockTest := True, error := None\<rparr>,
                   pending = pending sys @ [?t]\<rparr>"
  show start: "handleStartMockTest p parse sid tpc sys = ?started"
    using b by (simp add: handleStartMockTest_def Let_def)
  have "resume p parse (length (pending sys)) ?started
          = ?started\<lparr>app := setLoading (MockTest tpc) False
                             ((app ?started)\<lparr>error := Some (message_or e' (fallback (MockTest tpc)))\<rparr>),
                      pending := take (length (pending sys)) (pending ?started)
                                   @ drop (Suc (length (pending sys))) (pending ?started)\<rparr>"
    by (rule resume_first_failure) simp_all
  then show "resume p parse (length (pending sys)) (handleStartMockTest p parse sid tpc sys)
           = \<lparr>facade = w2,
              app = (app sys)\<lparr>error := Some (message_or e'
                                    ''Failed to generate test. Please try again.''),
                             loadingMockTest := False\<rparr>,
              pending = pending sys\<rparr>"
    by (simp add: start)
  show "issued w2 = issued (facade sys) \<or> issued w2 = issued (facade sys) @ [Generate_req tpc 0 5]"
    using fetchItem_issued [of p parse "facade sys" "MockTest tpc" 0] b(2) by simp
next
  assume c: "k < length (pending sys)"
    "pending sys ! k = \<lparr>builder = b, point = First sid, outcome = Inl e\<rparr>"
  note r = resume_first_failure [OF c, of p parse]
  show "resume p parse k sys
           = sys\<lparr>app := setLoading b False
                          ((app sys)\<lparr>error := Some (message_or e (fallback b))\<rparr>),
                 pending := take k (pending sys) @ drop (Suc k) (pending sys)\<rparr>"
    by (rule r)
  show "facade (resume p parse k sys) = facade sys" by (simp add: r)
  show "session (app (resume p parse k sys)) = session (app sys)" by (simp add: r)
  show "view (app (resume p parse k sys)) = view (app sys)" by (simp add: r)
qed

theorem first_fetch_failure_aborts_witness:
  "run provider_down example_parse example_run_parse [ImportQuestions ''abc'', Resume 0]
       (example_system ((example_app None)\<lparr>view := Import, importText := example_import\<rparr>))
     = \<lparr>facade = example_service\<lparr>aiInstance := Some ''key'',
                                   issued := [Fetch_req ''Two Sum'' 0 3]\<rparr>,
        app = (example_app None)\<lparr>view := Import, importText := example_import,
                                  error := Some ''503''\<rparr>,
        pending = []\<rparr>
   \<and> run provider_silent example_parse example_run_parse [StartMockTest ''Arrays'' ''abc'', Resume 0]
       (example_system ((example_app None)\<lparr>view := Home\<rparr>))
     = \<lparr>facade = example_service\<lparr>aiInstance := Some ''key'',
                                   issued := [Generate_req ''Arrays'' 0 5]\<rparr>,
        app = (example_app None)\<lparr>view := Home, error := Some ''Empty response from AI''\<rparr>,
        pending = []\<rparr>"
proof -
  let ?st = "(example_app None)\<lparr>view := Import, importText := example_import\<rparr>"
  let ?home = "(example_app None)\<lparr>view := Home\<rparr>"
  let ?titles = "[''Two Sum'', ''BAD_TITLE_CAUSES_FAILURE'', ''Reverse Linked List'']"
  let ?w1 = "example_service\<lparr>aiInstance := Some ''key'', issued := [Fetch_req ''Two Sum'' 0 3]\<rparr>"
  let ?w2 = "example_service\<lparr>aiInstance := Some ''key'', issued := [Generate_req ''Arrays'' 0 5]\<rparr>"
  have import: "\<not> apiKeyMissing (app (example_system ?st))
      \<and> ?titles = filter (\<lambda>t. trim t \<noteq> []) (split (CHR 0x0A) (importText (app (example_system ?st))))
      \<and> ?titles \<noteq> []
      \<and> fetchSingleQuestionByTitle provider_down example_parse (facade (example_system ?st))
            (?titles ! 0) 0 (length ?titles) = (?w1, Inl (Error ''503''))"
    by (simp add: example_titles example_system_def example_app_def
          fetchSingleQuestionByTitle_def generateContent_def getAI_def parseResponse_def
          provider_down_def example_service_def Let_def)
  have mock: "\<not> apiKeyMissing (app (example_system ?home))
      \<and> generateSingleQuestion provider_silent example_parse (facade (example_system ?home))
            ''Arrays'' 0 5 = (?w2, Inl (Error ''Empty response from AI''))"
    by (simp add: example_system_def example_app_def
          generateSingleQuestion_def generateContent_def getAI_def parseResponse_def
          provider_silent_def example_service_def Let_def)
  have a: "resume provider_down example_parse (length (pending (example_system ?st)))
             (handleImportQuestions provider_down example_parse ''abc'' (example_system ?st))
           = \<lparr>facade = ?w1,
              app = (app (example_system ?st))\<lparr>error := Some (message_or (Error ''503'')
                                    ''Failed to import questions. Please try again.''),
                             loadingImport := False\<rparr>,
              pending = pending (example_system ?st)\<rparr>"
    by (rule first_fetch_failure_aborts [where sys = "example_system ?st" and titles = ?titles
          and p = provider_down and parse = example_parse and sid = "''abc''",
          THEN conjunct1, THEN mp, OF import, THEN conjunct2, THEN conjunct1])
  have b: "resume provider_silent example_parse (length (pending (example_system ?home)))
             (handleStartMockTest provider_silent example_parse ''abc'' ''Arrays''
                (example_system ?home))
           = \<lparr>facade = ?w2,
              app = (app (example_system ?home))\<lparr>error := Some (message_or
                                    (Error ''Empty response from AI'')
                                    ''Failed to generate test. Please try again.''),
                             loadingMockTest := False\<rparr>,
              pending = pending (example_system ?home)\<rparr>"
    by (rule first_fetch_failure_aborts [where sys = "example_system ?home"
          and p = provider_silent and parse = example_parse and sid = "''abc''"
          and tpc = "''Arrays''",
          THEN conjunct2, THEN conjunct1, THEN mp, OF mock, THEN conjunct2, THEN conjunct1])
  from a b show ?thesis
    by (simp add: message_or_def example_system_def example_app_def)
qed

section \<open>A build and what happens in between\<close>

lemma successes_snoc:
  "successes out (js @ [k]) = successes out js @ (if isl (out k) then [] else [projr (out k)])"
  by (simp add: successes_def)

lemma questions_appendQuestion:
  "map_option questions (appendQuestion q s) = map_option (\<lambda>qs. qs @ [q]) (map_option questions s)"
  by (cases s) (simp_all add: appendQuestion_def)

lemma translateSolution_client:
  "aiInstance w \<noteq> None \<Longrightarrow> aiInstance (fst (translateSolution p w qo target)) \<noteq> None"
  by (cases qo)
     (auto simp: translateSolution_def generateContent_ready split: sum.splits option.splits)

lemma changeLanguage_client:
  assumes "aiInstance w \<noteq> None"
  shows "aiInstance (fst (changeLanguage p lang w st)) \<noteq> None"
proof (cases "session st")
  case None
  with assms show ?thesis by (simp add: changeLanguage_def)
next
  case (Some s)
  show ?thesis
  proof (cases "activeTab st = Solution")
    case False
    with Some assms show ?thesis by (simp add: changeLanguage_def Let_def)
  next
    case True
    have "fst (changeLanguage p lang w st)
            = fst (translateSolution p w (at_index (questions s) (currentQuestionIndex s))
                     (language_tag lang))"
      using Some True
      by (simp add: changeLanguage_def handleTranslateSolution_def Let_def case_prod_beta)
    with translateSolution_client [OF assms] show ?thesis by simp
  qed
qed

lemma handleRunCode_client:
  "handleRunCode p parse w st = Inr (w', st') \<Longrightarrow> aiInstance w \<noteq> None \<Longrightarrow> aiInstance w' \<noteq> None"
  by (auto simp: handleRunCode_def Let_def runCodeMock_def generateContent_ready
           split: if_splits option.splits sum.splits)

lemma updateCode_questions:
  "updateCode c st = Inr st'
     \<Longrightarrow> map_option questions (session st') = map_option questions (session st)"
  by (auto simp: updateCode_def Let_def split: option.splits if_splits)

lemma nextQuestion_questions:
  "map_option questions (session (nextQuestion st)) = map_option questions (session st)"
  by (auto simp: nextQuestion_def split: option.splits)

lemma prevQuestion_questions:
  "map_option questions (session (prevQuestion st)) = map_option questions (session st)"
  by (auto simp: prevQuestion_def split: option.splits)

lemma changeLanguage_questions:
  "map_option questions (session (snd (changeLanguage p lang w st)))
     = map_option questions (session st)"
  by (simp add: changeLanguage_session option.map_comp comp_def)

text \<open>An event of the user that starts no build and does not reload the page leaves the
  builds in wait, the questions and the client as they are.\<close>

lemma quiet_frame:
  assumes "quiet ev" "\<forall>k. ev \<noteq> Resume k"
  shows "pending (perform p parse parse' ev sys) = pending sys"
    and "map_option questions (session (app (perform p parse parse' ev sys)))
           = map_option questions (session (app sys))"
    and "aiInstance (facade sys) \<noteq> None
           \<Longrightarrow> aiInstance (facade (perform p parse parse' ev sys)) \<noteq> None"
proof -
  have "pending (perform p parse parse' ev sys) = pending sys
        \<and> map_option questions (session (app (perform p parse parse' ev sys)))
           = map_option questions (session (app sys))
        \<and> (aiInstance (facade sys) \<noteq> None
           \<longrightarrow> aiInstance (facade (perform p parse parse' ev sys)) \<noteq> None)"
  proof (cases ev)
    case (ChangeLanguage lang)
    then show ?thesis
      by (simp add: case_prod_beta changeLanguage_questions changeLanguage_client)
  next
    case (UpdateCode c)
    then show ?thesis
      by (cases "updateCode c (app sys)") (simp_all add: updateCode_questions)
  next
    case NextQuestion
    then show ?thesis by (simp add: nextQuestion_questions)
  next
    case PrevQuestion
    then show ?thesis by (simp add: prevQuestion_questions)
  next
    case RunCode
    show ?thesis
    proof (cases "handleRunCode p parse' (facade sys) (app sys)")
      case (Inl e)
      with RunCode show ?thesis by simp
    next
      case (Inr r)
      then have r: "handleRunCode p parse' (facade sys) (app sys) = Inr (fst r, snd r)"
        by simp
      from handleRunCode_session [OF r] handleRunCode_client [OF r] RunCode Inr show ?thesis
        by (simp add: case_prod_beta)
    qed
  qed (use assms in simp_all)
  then show "pending (perform p parse parse' ev sys) = pending sys"
    and "map_option questions (session (app (perform p parse parse' ev sys)))
           = map_option questions (session (app sys))"
    and "aiInstance (facade sys) \<noteq> None
           \<Longrightarrow> aiInstance (facade (perform p parse parse' ev sys)) \<noteq> None"
    by simp_all
qed

text \<open>The build that is alone in wait at item \<open>k\<close> goes on: it is at item \<open>k + 1\<close>,
  or it is over when that was the last item.\<close>

lemma loop_alone:
  assumes ready: "aiInstance (facade sys) \<noteq> None" and one: "length (pending sys) = 1"
  shows "i < items b \<Longrightarrow> loop p parse 0 b i sys
           = sys\<lparr>facade := (facade sys)\<lparr>issued := issued (facade sys) @ [request_of b i]\<rparr>,
                 pending := [\<lparr>builder = b, point = Loop i, outcome = answer p parse b i\<rparr>]\<rparr>"
    and "\<not> i < items b \<Longrightarrow> loop p parse 0 b i sys = sys\<lparr>pending := []\<rparr>"
proof -
  from one obtain t where t: "pending sys = [t]"
    by (cases "pending sys") simp_all
  show "loop p parse 0 b i sys
           = sys\<lparr>facade := (facade sys)\<lparr>issued := issued (facade sys) @ [request_of b i]\<rparr>,
                 pending := [\<lparr>builder = b, point = Loop i, outcome = answer p parse b i\<rparr>]\<rparr>"
    if "i < items b"
    using that t by (simp add: loop_def fetchItem_ready [OF ready])
  show "loop p parse 0 b i sys = sys\<lparr>pending := []\<rparr>" if "\<not> i < items b"
    using that t by (simp add: loop_def)
qed

lemma resume_building:
  assumes b: "building p parse b sid k sys"
  shows "if Suc k < items b then building p parse b sid (Suc k) (resume p parse 0 sys)
         else built p parse b (resume p parse 0 sys)"
proof -
  let ?out = "answer p parse b"
  from b have ready: "aiInstance (facade sys) \<noteq> None" and k: "k < items b"
    and pend: "pending sys = [\<lparr>builder = b, point = (if k = 0 then First sid else Loop k),
                               outcome = ?out k\<rparr>]"
    by (simp_all add: building_def)
  have after: "\<exists>st'. resume p parse 0 sys = loop p parse 0 b (Suc k) (sys\<lparr>app := st'\<rparr>)
                 \<and> map_option questions (session st') = Some (successes ?out [0..<Suc k])"
  proof (cases "k = 0")
    case True
    with b obtain q0 where q0: "?out 0 = Inr q0"
      by (cases "?out 0") (simp_all add: building_def)
    let ?st' = "setLoading b False ((app sys)\<lparr>session := Some (newSession sid q0), view := Test\<rparr>)"
    from True pend q0 have "resume p parse 0 sys = loop p parse 0 b (Suc k) (sys\<lparr>app := ?st'\<rparr>)"
      by (simp add: resume_def Let_def)
    moreover from True q0
    have "map_option questions (session ?st') = Some (successes ?out [0..<Suc k])"
      by (simp add: successes_def newSession_def)
    ultimately show ?thesis by blast
  next
    case False
    with b have qs: "map_option questions (session (app sys)) = Some (successes ?out [0..<k])"
      by (simp add: building_def)
    show ?thesis
    proof (cases "?out k")
      case (Inl e)
      with False pend have "resume p parse 0 sys = loop p parse 0 b (Suc k) (sys\<lparr>app := app sys\<rparr>)"
        by (simp add: resume_def Let_def)
      moreover from Inl qs
      have "map_option questions (session (app sys)) = Some (successes ?out [0..<Suc k])"
        by (auto simp: successes_snoc)
      ultimately show ?thesis by blast
    next
      case (Inr q)
      let ?st' = "(app sys)\<lparr>session := appendQuestion q (session (app sys))\<rparr>"
      from Inr False pend
      have "resume p parse 0 sys = loop p parse 0 b (Suc k) (sys\<lparr>app := ?st'\<rparr>)"
        by (simp add: resume_def Let_def)
      moreover from Inr qs
      have "map_option questions (session ?st') = Some (successes ?out [0..<Suc k])"
        by (auto simp: successes_snoc questions_appendQuestion)
      ultimately show ?thesis by blast
    qed
  qed
  then obtain st' where r: "resume p parse 0 sys = loop p parse 0 b (Suc k) (sys\<lparr>app := st'\<rparr>)"
    and qs': "map_option questions (session st') = Some (successes ?out [0..<Suc k])"
    by blast
  have ready': "aiInstance (facade (sys\<lparr>app := st'\<rparr>)) \<noteq> None"
    and one: "length (pending (sys\<lparr>app := st'\<rparr>)) = 1"
    using ready pend by simp_all
  show ?thesis
  proof (cases "Suc k < items b")
    case True
    with loop_alone(1) [OF ready' one True, of p parse] r qs' ready show ?thesis
      by (simp add: building_def)
  next
    case False
    with k have last: "Suc k = items b" by simp
    from loop_alone(2) [OF ready' one False, of p parse] r qs' ready last False show ?thesis
      by (simp add: built_def)
  qed
qed

lemma building_step:
  assumes b: "building p parse b sid k sys" and q: "quiet ev"
  shows "building p parse b sid k (perform p parse parse' ev sys)
         \<or> building p parse b sid (Suc k) (perform p parse parse' ev sys)
         \<or> built p parse b (perform p parse parse' ev sys)"
proof (cases "\<exists>j. ev = Resume j")
  case True
  then obtain j where ev: "ev = Resume j" by blast
  show ?thesis
  proof (cases j)
    case 0
    with ev resume_building [OF b] show ?thesis
      by (cases "Suc k < items b") simp_all
  next
    case (Suc j')
    with b ev have "perform p parse parse' ev sys = sys"
      by (simp add: resume_def building_def)
    with b show ?thesis by simp
  qed
next
  case False
  then have no: "\<forall>k. ev \<noteq> Resume k" by blast
  from quiet_frame [OF q no, where p = p and parse = parse and parse' = parse' and sys = sys] b
  have "building p parse b sid k (perform p parse parse' ev sys)"
    by (simp add: building_def)
  then show ?thesis by blast
qed

lemma built_step:
  assumes b: "built p parse b sys" and q: "quiet ev"
  shows "built p parse b (perform p parse parse' ev sys)"
proof (cases "\<exists>j. ev = Resume j")
  case True
  with b show ?thesis by (auto simp: resume_def built_def)
next
  case False
  then have no: "\<forall>k. ev \<noteq> Resume k" by blast
  from quiet_frame [OF q no, where p = p and parse = parse and parse' = parse' and sys = sys] b show ?thesis
    by (simp add: built_def)
qed

lemma build_run:
  assumes "list_all quiet evs"
    and "(\<exists>k. building p parse b sid k sys) \<or> built p parse b sys"
  shows "(\<exists>k. building p parse b sid k (run p parse parse' evs sys))
         \<or> built p parse b (run p parse parse' evs sys)"
  using assms
proof (induction evs arbitrary: sys)
  case Nil
  then show ?case by simp
next
  case (Cons ev evs)
  from Cons.prems have q: "quiet ev" and qs: "list_all quiet evs" by simp_all
  from Cons.prems(2)
    building_step [OF _ q, where p = p and parse = parse and b = b and sid = sid
      and sys = sys and parse' = parse']
    built_step [OF _ q, where p = p and parse = parse and b = b and sys = sys
      and parse' = parse']
  have "(\<exists>k. building p parse b sid k (perform p parse parse' ev sys))
        \<or> built p parse b (perform p parse parse' ev sys)"
    by blast
  from Cons.IH [OF qs this] show ?case by simp
qed

lemma build_over:
  assumes "list_all quiet evs" and "building p parse b sid k sys"
    and "pending (run p parse parse' evs sys) = []"
  shows "map_option questions (session (app (run p parse parse' evs sys)))
           = Some (successes (answer p parse b) [0..<items b])"
proof -
  from build_run [OF assms(1), where p = p and parse = parse and b = b and sid = sid
      and sys = sys and parse' = parse'] assms(2)
  have "(\<exists>k. building p parse b sid k (run p parse parse' evs sys))
        \<or> built p parse b (run p parse parse' evs sys)"
    by blast
  with assms(3) show ?thesis by (auto simp: building_def built_def)
qed

lemma build_alone:
  "building p parse b sid k sys
     \<Longrightarrow> built p parse b (run p parse parse' (replicate (items b - k) (Resume 0)) sys)"
proof (induction "items b - k" arbitrary: k sys)
  case 0
  then show ?case by (simp add: building_def)
next
  case (Suc n)
  then have k: "k < items b" and n: "n = items b - Suc k" by simp_all
  from k have rep: "replicate (items b - k) (Resume 0)
                      = Resume 0 # replicate (items b - Suc k) (Resume 0)"
    by (simp add: Suc_diff_Suc replicate_Suc [symmetric] del: replicate_Suc)
  show ?case
  proof (cases "Suc k < items b")
    case True
    with resume_building [OF Suc.prems]
    have "building p parse b sid (Suc k) (resume p parse 0 sys)" by simp
    from Suc.hyps(1) [OF n this] show ?thesis by (simp add: rep)
  next
    case False
    with k have last: "items b - Suc k = 0" by simp
    from False resume_building [OF Suc.prems]
    have "built p parse b (resume p parse 0 sys)" by simp
    then show ?thesis by (simp add: rep last)
  qed
qed

lemma building_start:
  assumes "pending sys = []" and "snd (fetchItem p parse (facade sys) b 0) = Inr q0"
    and "0 < items b"
  shows "building p parse b sid 0
           \<lparr>facade = fst (fetchItem p parse (facade sys) b 0), app = st,
            pending = pending sys @ [\<lparr>builder = b, point = First sid,
                                       outcome = snd (fetchItem p parse (facade sys) b 0)\<rparr>]\<rparr>"
proof -
  obtain w1 r where g: "generateContent p (facade sys) (request_of b 0) = (w1, r)"
    by (cases "generateContent p (facade sys) (request_of b 0)")
  with assms(2) have parsed: "parseResponse parse r = Inr q0"
    by (simp add: snd_fetchItem)
  from generateContent_Inr_ready [OF g parsed]
  have ready: "aiInstance w1 \<noteq> None" and r: "r = p (request_of b 0)"
    by simp_all
  from g have w1: "fst (fetchItem p parse (facade sys) b 0) = w1"
    by (simp add: fst_fetchItem)
  from parsed r have out0: "answer p parse b 0 = Inr q0" by (simp add: answer_def)
  from assms ready w1 out0 show ?thesis
    by (simp add: building_def)
qed

lemma handleImportQuestions_started:
  assumes "\<not> apiKeyMissing (app sys)"
    and "titles = filter (\<lambda>t. trim t \<noteq> []) (split (CHR 0x0A) (importText (app sys)))"
    and "titles \<noteq> []"
  shows "handleImportQuestions p parse sid sys
           = \<lparr>facade = fst (fetchItem p parse (facade sys) (ImportTitles titles) 0),
              app = (app sys)\<lparr>loadingImport := True, error := None\<rparr>,
              pending = pending sys @ [\<lparr>builder = ImportTitles titles, point = First sid,
                  outcome = snd (fetchItem p parse (facade sys) (ImportTitles titles) 0)\<rparr>]\<rparr>"
  using assms by (simp add: handleImportQuestions_def Let_def case_prod_beta)

lemma handleStartMockTest_started:
  assumes "\<not> apiKeyMissing (app sys)"
  shows "handleStartMockTest p parse sid tpc sys
           = \<lparr>facade = fst (fetchItem p parse (facade sys) (MockTest tpc) 0),
              app = (app sys)\<lparr>loadingMockTest := True, error := None\<rparr>,
              pending = pending sys @ [\<lparr>builder = MockTest tpc, point = First sid,
                  outcome = snd (fetchItem p parse (facade sys) (MockTest tpc) 0)\<rparr>]\<rparr>"
  using assms by (simp add: handleStartMockTest_def Let_def case_prod_beta)

lemma answer_ImportTitles:
  "answer p parse (ImportTitles titles)
     = (\<lambda>j. parseResponse parse (p (Fetch_req (titles ! j) j (length titles))))"
  by (rule ext) (simp add: answer_def)

lemma answer_MockTest:
  "answer p parse (MockTest tpc) = (\<lambda>j. parseResponse parse (p (Generate_req tpc j 5)))"
  by (rule ext) (simp add: answer_def)

text \<open>
  C1, as the code has it. A build that starts when no other build waits, and during
  which no other build is started and no key is saved, ends with a session
  whose questions are the results of its successful fetches, one for each, in the order
  of the items: item \<open>j\<close> contributes the question that the facade returns for its
  request, when it returns one, and nothing when the fetch fails, and the build goes on
  to item \<open>j + 1\<close> in both cases. This holds whatever the user does in between: change
  the language, write code, move between questions, run code, leave the view. Left
  alone, the build is over after as many steps as it has items. This holds for the
  import of a list of titles and for the mock test of five generated questions.
\<close>

theorem build_collects_successes_in_order:
  "(pending sys = [] \<and> \<not> apiKeyMissing (app sys)
      \<and> titles = filter (\<lambda>t. trim t \<noteq> []) (split (CHR 0x0A) (importText (app sys)))
      \<and> titles \<noteq> []
      \<and> snd (fetchSingleQuestionByTitle p parse (facade sys) (titles ! 0) 0 (length titles)) = Inr q0
      \<and> list_all quiet evs
     \<longrightarrow> (pending (run p parse parse' evs (handleImportQuestions p parse sid sys)) = []
           \<longrightarrow> map_option questions
                 (session (app (run p parse parse' evs (handleImportQuestions p parse sid sys))))
               = Some (successes
                         (\<lambda>j. parseResponse parse (p (Fetch_req (titles ! j) j (length titles))))
                         [0..<length titles]))
         \<and> pending (run p parse parse' (replicate (length titles) (Resume 0))
                      (handleImportQuestions p parse sid sys)) = [])
   \<and> (pending sys = [] \<and> \<not> apiKeyMissing (app sys)
      \<and> snd (generateSingleQuestion p parse (facade sys) tpc 0 5) = Inr q1
      \<and> list_all quiet evs
     \<longrightarrow> (pending (run p parse parse' evs (handleStartMockTest p parse sid tpc sys)) = []
           \<longrightarrow> map_option questions
                 (session (app (run p parse parse' evs (handleStartMockTest p parse sid tpc sys))))
               = Some (successes (\<lambda>j. parseResponse parse (p (Generate_req tpc j 5))) [0..<5]))
         \<and> pending (run p parse parse' (replicate 5 (Resume 0))
                      (handleStartMockTest p parse sid tpc sys)) = [])"
proof (intro conjI impI; (elim conjE)?)
  assume none: "pending sys = []" and key: "\<not> apiKeyMissing (app sys)"
    and titles: "titles = filter (\<lambda>t. trim t \<noteq> []) (split (CHR 0x0A) (importText (app sys)))"
      "titles \<noteq> []"
    and first: "snd (fetchSingleQuestionByTitle p parse (facade sys) (titles ! 0) 0 (length titles))
                  = Inr q0"
    and quiet: "list_all quiet evs"
  let ?b = "ImportTitles titles"
  note started = handleImportQuestions_started [OF key titles, of p parse sid]
  from first have "snd (fetchItem p parse (facade sys) ?b 0) = Inr q0" by simp
  from building_start [OF none this, of sid "(app sys)\<lparr>loadingImport := True, error := None\<rparr>"]
    titles(2)
  have b: "building p parse ?b sid 0 (handleImportQuestions p parse sid sys)"
    by (simp add: started)
  show "map_option questions
          (session (app (run p parse parse' evs (handleImportQuestions p parse sid sys))))
        = Some (successes
                  (\<lambda>j. parseResponse parse (p (Fetch_req (titles ! j) j (length titles))))
                  [0..<length titles])"
    if "pending (run p parse parse' evs (handleImportQuestions p parse sid sys)) = []"
    using build_over [OF quiet b that] by (simp add: answer_ImportTitles)
  from build_alone [OF b, of parse']
  show "pending (run p parse parse' (replicate (length titles) (Resume 0))
                      (handleImportQuestions p parse sid sys)) = []"
    by (simp add: built_def)
next
  assume none: "pending sys = []" and key: "\<not> apiKeyMissing (app sys)"
    and first: "snd (generateSingleQuestion p parse (facade sys) tpc 0 5) = Inr q1"
    and quiet: "list_all quiet evs"
  let ?b = "MockTest tpc"
  note started = handleStartMockTest_started [OF key, of p parse sid tpc]
  from first have "snd (fetchItem p parse (facade sys) ?b 0) = Inr q1" by simp
  from building_start [OF none this, of sid "(app sys)\<lparr>loadingMockTest := True, error := None\<rparr>"]
  have b: "building p parse ?b sid 0 (handleStartMockTest p parse sid tpc sys)"
    by (simp add: started)
  show "map_option questions
          (session (app (run p parse parse' evs (handleStartMockTest p parse sid tpc sys))))
        = Some (successes (\<lambda>j. parseResponse parse (p (Generate_req tpc j 5))) [0..<5])"
    if "pending (run p parse parse' evs (handleStartMockTest p parse sid tpc sys)) = []"
    using build_over [OF quiet b that] by (simp add: answer_MockTest)
  from build_alone [OF b, of parse']
  show "pending (run p parse parse' (replicate 5 (Resume 0))
                      (handleStartMockTest p parse sid tpc sys)) = []"
    by (simp add: built_def)
qed

theorem build_collects_successes_in_order_witness:
  "map_option questions (session (app (run example_provider example_parse example_run_parse
       [Resume 0, NextQuestion, Resume 0, ChangeLanguage Python, Resume 0,
        UpdateCode (Some ''return 1;'')]
       (handleImportQuestions example_provider example_parse ''abc''
          (example_system ((example_app None)\<lparr>view := Import, importText := example_import\<rparr>))))))
     = Some [example_question ''Two Sum'' ''Two Sum'',
             example_question ''Reverse Linked List'' ''Reverse Linked List'']
   \<and> map_option (map title) (map_option questions (session (app
        (run provider_numbered example_parse example_run_parse (replicate 5 (Resume 0))
           (handleStartMockTest provider_numbered example_parse ''abc'' ''Trees''
              (example_system ((example_app None)\<lparr>view := Home\<rparr>)))))))
     = Some [''Trees-0'', ''Trees-1'', ''Trees-2'', ''Trees-3'', ''Trees-4'']"
proof -
  let ?sys = "example_system ((example_app None)\<lparr>view := Import, importText := example_import\<rparr>)"
  let ?home = "example_system ((example_app None)\<lparr>view := Home\<rparr>)"
  let ?titles = "[''Two Sum'', ''BAD_TITLE_CAUSES_FAILURE'', ''Reverse Linked List'']"
  let ?evs = "[Resume 0, NextQuestion, Resume 0, ChangeLanguage Python, Resume 0,
               UpdateCode (Some ''return 1;'')]"
  let ?started = "handleImportQuestions example_provider example_parse ''abc'' ?sys"
  let ?mock = "handleStartMockTest provider_numbered example_parse ''abc'' ''Trees'' ?home"
  have import: "pending ?sys = [] \<and> \<not> apiKeyMissing (app ?sys)
      \<and> ?titles = filter (\<lambda>t. trim t \<noteq> []) (split (CHR 0x0A) (importText (app ?sys)))
      \<and> ?titles \<noteq> []
      \<and> snd (fetchSingleQuestionByTitle example_provider example_parse (facade ?sys)
                (?titles ! 0) 0 (length ?titles)) = Inr (example_question ''Two Sum'' ''Two Sum'')
      \<and> list_all quiet ?evs"
    by (simp add: example_titles example_system_def example_app_def
          fetchSingleQuestionByTitle_def generateContent_def getAI_def parseResponse_def
          example_provider_def example_parse_def example_service_def Let_def)
  note imported = build_collects_successes_in_order [where sys = ?sys and titles = ?titles
      and p = example_provider and parse = example_parse and parse' = example_run_parse
      and sid = "''abc''" and evs = ?evs, THEN conjunct1, THEN mp, OF import]
  have started: "?started
      = \<lparr>facade = example_service\<lparr>aiInstance := Some ''key'',
                                    issued := [Fetch_req ''Two Sum'' 0 3]\<rparr>,
         app = (example_app None)\<lparr>view := Import, importText := example_import,
                                   loadingImport := True\<rparr>,
         pending = [\<lparr>builder = ImportTitles ?titles, point = First ''abc'',
                     outcome = Inr (example_question ''Two Sum'' ''Two Sum'')\<rparr>]\<rparr>"
    by (simp add: handleImportQuestions_def example_titles example_system_def example_app_def
          fetchSingleQuestionByTitle_def generateContent_def getAI_def parseResponse_def
          example_provider_def example_parse_def example_service_def Let_def)
  have over: "pending (run example_provider example_parse example_run_parse ?evs ?started) = []"
    by (simp add: started resume_def loop_def Let_def
          fetchSingleQuestionByTitle_def generateContent_def getAI_def parseResponse_def
          example_provider_def example_parse_def example_service_def
          changeLanguage_def updateCode_def case_prod_beta split: option.splits)
  have upt3: "[0..<3] = [0, 1, 2]" and upt5: "[0..<5] = [0, 1, 2, 3, 4]"
    by (simp_all add: upt_rec)
  from imported [THEN conjunct1, THEN mp, OF over]
  have a: "map_option questions (session (app (run example_provider example_parse
             example_run_parse ?evs ?started)))
     = Some [example_question ''Two Sum'' ''Two Sum'',
             example_question ''Reverse Linked List'' ''Reverse Linked List'']"
    by (simp add: successes_def upt3 parseResponse_def example_provider_def example_parse_def)
  have mock: "pending ?home = [] \<and> \<not> apiKeyMissing (app ?home)
      \<and> snd (generateSingleQuestion provider_numbered example_parse (facade ?home) ''Trees'' 0 5)
          = Inr (example_question ''Trees-0'' ''Trees-0'')
      \<and> list_all quiet (replicate 5 (Resume 0))"
    by (simp add: example_system_def example_app_def list_all_iff
          generateSingleQuestion_def generateContent_def getAI_def parseResponse_def
          provider_numbered_def example_parse_def example_service_def Let_def)
  note generated = build_collects_successes_in_order [where sys = ?home
      and p = provider_numbered and parse = example_parse and parse' = example_run_parse
      and sid = "''abc''" and tpc = "''Trees''" and evs = "replicate 5 (Resume 0)",
      THEN conjunct2, THEN mp, OF mock]
  from generated [THEN conjunct1, THEN mp, OF generated [THEN conjunct2]]
  have c: "map_option questions (session (app (run provider_numbered example_parse
             example_run_parse (replicate 5 (Resume 0)) ?mock)))
     = Some [example_question ''Trees-0'' ''Trees-0'', example_question ''Trees-1'' ''Trees-1'',
             example_question ''Trees-2'' ''Trees-2'', example_question ''Trees-3'' ''Trees-3'',
             example_question ''Trees-4'' ''Trees-4'']"
    by (simp add: successes_def upt5 parseResponse_def provider_numbered_def example_parse_def)
  have "map_option (map title) (map_option questions (session (app (run provider_numbered
          example_parse example_run_parse (replicate 5 (Resume 0)) ?mock))))
     = map_option (map title) (Some [example_question ''Trees-0'' ''Trees-0'',
             example_question ''Trees-1'' ''Trees-1'', example_question ''Trees-2'' ''Trees-2'',
             example_question ''Trees-3'' ''Trees-3'', example_question ''Trees-4'' ''Trees-4''])"
    by (rule arg_cong [OF c])
  also have "\<dots> = Some [''Trees-0'', ''Trees-1'', ''Trees-2'', ''Trees-3'', ''Trees-4'']"
    by (simp add: example_question_def)
  finally have b: "map_option (map title) (map_option questions (session (app (run
          provider_numbered example_parse example_run_parse (replicate 5 (Resume 0)) ?mock))))
     = Some [''Trees-0'', ''Trees-1'', ''Trees-2'', ''Trees-3'', ''Trees-4'']" .
  from a b show ?thesis by (rule conjI)
qed

text \<open>
  The claim as it is written fails for a build that overlaps with another: nothing ends
  the loop of a build when the user leaves the view and starts the next build, and its
  updater appends to the session that is current. Here every fetch of the second build
  succeeds, and the session that it creates ends with seven questions: its own five and
  the last two of the first build.
\<close>

theorem build_overlap_counterexample:
  "pending (run provider_numbered example_parse example_run_parse example_overlap
              (example_system ((example_app None)\<lparr>view := Home\<rparr>))) = []
   \<and> id_s (the (session (app (run provider_numbered example_parse example_run_parse
              example_overlap (example_system ((example_app None)\<lparr>view := Home\<rparr>)))))) = ''sidB''
   \<and> map title (questions (the (session (app (run provider_numbered example_parse
              example_run_parse example_overlap
              (example_system ((example_app None)\<lparr>view := Home\<rparr>)))))))
      = [''DP-0'', ''DP-1'', ''DP-2'', ''DP-3'', ''DP-4'', ''Trees-3'', ''Trees-4'']
   \<and> map title (successes (\<lambda>j. parseResponse example_parse
                                 (provider_numbered (Generate_req ''DP'' j 5))) [0, 1, 2, 3, 4])
      = [''DP-0'', ''DP-1'', ''DP-2'', ''DP-3'', ''DP-4'']"
  by (simp add: example_overlap_def handleStartMockTest_def resume_def loop_def Let_def
        generateSingleQuestion_def generateContent_def getAI_def parseResponse_def
        newSession_def appendQuestion_def successes_def
        provider_numbered_def example_parse_def example_system_def example_service_def
        example_defs)

section \<open>A call with no credential\<close>

lemma getAI_missing:
  "no_credential w \<Longrightarrow> aiInstance w = None \<Longrightarrow> getAI w = Inl (Error ''API_KEY_MISSING'')"
  by (auto simp: getAI_def no_credential_def Let_def)

lemma generateContent_missing:
  "no_credential w \<Longrightarrow> aiInstance w = None
     \<Longrightarrow> generateContent p w req = (w, Inl (Error ''API_KEY_MISSING''))"
  by (simp add: generateContent_def getAI_missing)

text \<open>
  C3, as the code has it. With no credential and no client created since the page was
  loaded, no operation of the facade issues a request (the state of the facade, with the
  requests issued, is the one before). Generating and fetching a question, running code,
  learning content and expert advice fail with the error \<^verbatim>\<open>API_KEY_MISSING\<close>;
  \<^verbatim>\<open>translateSolution\<close> catches that error and returns its text
  \<^verbatim>\<open>Failed to translate solution.\<close>
\<close>

theorem missing_credential_fails_fast:
  "no_credential w \<and> aiInstance w = None \<longrightarrow>
     generateSingleQuestion p parse w tpc i n = (w, Inl (Error ''API_KEY_MISSING''))
     \<and> fetchSingleQuestionByTitle p parse w ttl i n = (w, Inl (Error ''API_KEY_MISSING''))
     \<and> runCodeMock p parse' w cde lang q = (w, Inl (Error ''API_KEY_MISSING''))
     \<and> getLearningContent p w l tpc = (w, Inl (Error ''API_KEY_MISSING''))
     \<and> getExpertAdvice p w msg ctxt = (w, Inl (Error ''API_KEY_MISSING''))
     \<and> translateSolution p w qo target = (w, ''Failed to translate solution.'')"
proof
  assume "no_credential w \<and> aiInstance w = None"
  then have g: "generateContent p w req = (w, Inl (Error ''API_KEY_MISSING''))" for req
    by (simp add: generateContent_missing)
  show "generateSingleQuestion p parse w tpc i n = (w, Inl (Error ''API_KEY_MISSING''))
     \<and> fetchSingleQuestionByTitle p parse w ttl i n = (w, Inl (Error ''API_KEY_MISSING''))
     \<and> runCodeMock p parse' w cde lang q = (w, Inl (Error ''API_KEY_MISSING''))
     \<and> getLearningContent p w l tpc = (w, Inl (Error ''API_KEY_MISSING''))
     \<and> getExpertAdvice p w msg ctxt = (w, Inl (Error ''API_KEY_MISSING''))
     \<and> translateSolution p w qo target = (w, ''Failed to translate solution.'')"
    by (simp add: generateSingleQuestion_def fetchSingleQuestionByTitle_def runCodeMock_def
          getLearningContent_def getExpertAdvice_def translateSolution_def g parseResponse_def
          split: option.splits)
qed

theorem missing_credential_fails_fast_witness:
  "no_credential \<lparr>localKey = None, envKey = Some ''MY_GEMINI_API_KEY'', aiInstance = None, issued = []\<rparr>
   \<and> fetchSingleQuestionByTitle example_provider example_parse
         \<lparr>localKey = None, envKey = Some ''MY_GEMINI_API_KEY'', aiInstance = None, issued = []\<rparr>
         ''Two Sum'' 0 3
       = (\<lparr>localKey = None, envKey = Some ''MY_GEMINI_API_KEY'', aiInstance = None, issued = []\<rparr>,
          Inl (Error ''API_KEY_MISSING''))
   \<and> getExpertAdvice example_provider
         \<lparr>localKey = None, envKey = Some ''MY_GEMINI_API_KEY'', aiInstance = None, issued = []\<rparr>
         ''How do I prepare?'' None
       = (\<lparr>localKey = None, envKey = Some ''MY_GEMINI_API_KEY'', aiInstance = None, issued = []\<rparr>,
          Inl (Error ''API_KEY_MISSING''))"
proof -
  let ?w = "\<lparr>localKey = None, envKey = Some ''MY_GEMINI_API_KEY'', aiInstance = None, issued = []\<rparr>"
  have h: "no_credential ?w \<and> aiInstance ?w = None"
    by (simp add: no_credential_def)
  from missing_credential_fails_fast [where w = ?w and p = example_provider
      and parse = example_parse and ttl = "''Two Sum''" and i = 0 and n = 3
      and msg = "''How do I prepare?''" and ctxt = None] h
  show ?thesis by blast
qed

text \<open>
  The claim as it is written fails in two places. A client that was created while a key
  was stored stays in \<^verbatim>\<open>aiInstance\<close>: after the key is removed in the settings (which
  does not reload the page) there is no credential, and a call of the facade still goes
  out to the provider and succeeds; so does the translation that a change of language
  starts on the solution tab, which no check of the key guards. And \<^verbatim>\<open>translateSolution\<close>
  with no credential and no client does not fail: it returns a text.
\<close>

theorem missing_credential_counterexample:
  "no_credential (fst example_cleared)
   \<and> localKey (fst example_cleared) = None \<and> envKey (fst example_cleared) = None
   \<and> getExpertAdvice provider_text (fst example_cleared) ''How do I prepare?'' None
      = ((fst example_cleared)\<lparr>issued :=
            [Learning_req ''java'' ''arrays'', Expert_req ''How do I prepare?'' None]\<rparr>,
         Inr ''text'')
   \<and> issued (fst (changeLanguage provider_text Python (fst example_cleared) (snd example_cleared)))
      = [Learning_req ''java'' ''arrays'', Translate_req ''python'' ''Two Sum'' []]
   \<and> translatedSolution
        (snd (changeLanguage provider_text Python (fst example_cleared) (snd example_cleared)))
      = Some ''text''
   \<and> translateSolution provider_text
        \<lparr>localKey = None, envKey = None, aiInstance = None, issued = []\<rparr>
        (Some (example_question ''q1'' ''Two Sum'')) ''python''
      = (\<lparr>localKey = None, envKey = None, aiInstance = None, issued = []\<rparr>,
         ''Failed to translate solution.'')"
  by (simp add: example_cleared_def no_credential_def handleSaveCustomKey_def
        getLearningContent_def getExpertAdvice_def translateSolution_def generateContent_def
        getAI_def checkApiKey_def changeLanguage_def handleTranslateSolution_def language_tag_def
        at_index_def provider_text_def example_service_def example_defs trim_def Let_def)

section \<open>Failures of the provider\<close>

lemma not_truthy: "\<not> truthy body \<longleftrightarrow> body = None \<or> body = Some []"
  by (cases body) simp_all


lemma json_call_returned:
  assumes "parseResponse parse (snd (generateContent p w req)) = Inr v"
  shows "\<exists>body. body \<noteq> [] \<and> p req = Inr (Some body) \<and> parse body = Inr v"
proof -
  from parseResponse_Inr [OF assms] obtain t
    where t: "t \<noteq> []" "snd (generateContent p w req) = Inr (Some t)" "parse t = Inr v"
    by blast
  with generateContent_result [of p w req] have "p req = Inr (Some t)" by auto
  with t show ?thesis by blast
qed

text \<open>
  C2, as the code has it. Once the client exists or can be created, generating a
  question, fetching a question by title and running code throw to the caller the error
  of a rejected call, the error \<^verbatim>\<open>Empty response from AI\<close> for an absent or empty text,
  and the error of \<^verbatim>\<open>JSON.parse\<close> for a text that it rejects; what they return is what
  \<^verbatim>\<open>JSON.parse\<close> returned for the whole text. Learning content and expert advice throw
  the error of a rejected call, but for an absent or empty text they return their fixed
  text as the result. \<^verbatim>\<open>translateSolution\<close> never throws: it returns
  \<^verbatim>\<open>Failed to translate solution.\<close> when the call is rejected (or no question is at hand)
  and \<^verbatim>\<open>Translation failed.\<close> for an absent or empty text. When the client cannot be
  created, the first five throw that error and \<^verbatim>\<open>translateSolution\<close> returns its text.
\<close>

theorem provider_failures_surface:
  "(getAI w = Inr w' \<longrightarrow>
      (p (Generate_req tpc i n) = Inl e
         \<longrightarrow> snd (generateSingleQuestion p parse w tpc i n) = Inl e)
    \<and> (p (Generate_req tpc i n) = Inr body \<and> \<not> truthy body
         \<longrightarrow> snd (generateSingleQuestion p parse w tpc i n) = Inl (Error ''Empty response from AI''))
    \<and> (p (Generate_req tpc i n) = Inr (Some payload) \<and> payload \<noteq> []
         \<longrightarrow> snd (generateSingleQuestion p parse w tpc i n) = parse payload)
    \<and> (p (Fetch_req ttl i n) = Inl e
         \<longrightarrow> snd (fetchSingleQuestionByTitle p parse w ttl i n) = Inl e)
    \<and> (p (Fetch_req ttl i n) = Inr body \<and> \<not> truthy body
         \<longrightarrow> snd (fetchSingleQuestionByTitle p parse w ttl i n)
             = Inl (Error ''Empty response from AI''))
    \<and> (p (Fetch_req ttl i n) = Inr (Some payload) \<and> payload \<noteq> []
         \<longrightarrow> snd (fetchSingleQuestionByTitle p parse w ttl i n) = parse payload)
    \<and> (p (Run_req (title q) (description q) (examples q) lang cde) = Inl e
         \<longrightarrow> snd (runCodeMock p parse' w cde lang q) = Inl e)
    \<and> (p (Run_req (title q) (description q) (examples q) lang cde) = Inr body \<and> \<not> truthy body
         \<longrightarrow> snd (runCodeMock p parse' w cde lang q) = Inl (Error ''Empty response from AI''))
    \<and> (p (Run_req (title q) (description q) (examples q) lang cde) = Inr (Some payload)
          \<and> payload \<noteq> []
         \<longrightarrow> snd (runCodeMock p parse' w cde lang q) = parse' payload)
    \<and> (p (Learning_req l tpc) = Inl e \<longrightarrow> snd (getLearningContent p w l tpc) = Inl e)
    \<and> (p (Learning_req l tpc) = Inr body \<and> \<not> truthy body
         \<longrightarrow> snd (getLearningContent p w l tpc) = Inr ''Failed to generate content.'')
    \<and> (p (Learning_req l tpc) = Inr (Some payload) \<and> payload \<noteq> []
         \<longrightarrow> snd (getLearningContent p w l tpc) = Inr payload)
    \<and> (p (Expert_req msg ctxt) = Inl e \<longrightarrow> snd (getExpertAdvice p w msg ctxt) = Inl e)
    \<and> (p (Expert_req msg ctxt) = Inr body \<and> \<not> truthy body
         \<longrightarrow> snd (getExpertAdvice p w msg ctxt) = Inr ''Expert is currently unavailable.'')
    \<and> (p (Expert_req msg ctxt) = Inr (Some payload) \<and> payload \<noteq> []
         \<longrightarrow> snd (getExpertAdvice p w msg ctxt) = Inr payload)
    \<and> (p (Translate_req target (title q) (approaches q)) = Inl e
         \<longrightarrow> snd (translateSolution p w (Some q) target) = ''Failed to translate solution.'')
    \<and> (p (Translate_req target (title q) (approaches q)) = Inr body \<and> \<not> truthy body
         \<longrightarrow> snd (translateSolution p w (Some q) target) = ''Translation failed.'')
    \<and> (p (Translate_req target (title q) (approaches q)) = Inr (Some payload) \<and> payload \<noteq> []
         \<longrightarrow> snd (translateSolution p w (Some q) target) = payload))
   \<and> (getAI w = Inl e \<longrightarrow>
        snd (generateSingleQuestion p parse w tpc i n) = Inl e
      \<and> snd (fetchSingleQuestionByTitle p parse w ttl i n) = Inl e
      \<and> snd (runCodeMock p parse' w cde lang q) = Inl e
      \<and> snd (getLearningContent p w l tpc) = Inl e
      \<and> snd (getExpertAdvice p w msg ctxt) = Inl e
      \<and> snd (translateSolution p w (Some q) target) = ''Failed to translate solution.'')
   \<and> snd (translateSolution p w None target) = ''Failed to translate solution.''"
proof (intro conjI impI; (elim conjE)?)
  show "snd (translateSolution p w None target) = ''Failed to translate solution.''"
    by (simp add: translateSolution_def)
qed (auto simp: snd_generateSingleQuestion snd_fetchSingleQuestionByTitle snd_runCodeMock
       generateContent_getAI generateContent_no_client parseResponse_def
       getLearningContent_def getExpertAdvice_def translateSolution_def not_truthy)

theorem provider_failures_surface_witness:
  "snd (generateSingleQuestion provider_down example_parse example_service ''Arrays'' 0 5)
     = Inl (Error ''503'')
   \<and> snd (fetchSingleQuestionByTitle provider_down example_parse example_service ''Two Sum'' 0 3)
     = Inl (Error ''503'')
   \<and> snd (runCodeMock provider_down example_run_parse example_service (Some ''return 1;'') Java
            (example_question ''q1'' ''Two Sum'')) = Inl (Error ''503'')
   \<and> snd (getLearningContent provider_down example_service ''java'' ''arrays'') = Inl (Error ''503'')
   \<and> snd (getExpertAdvice provider_down example_service ''How do I prepare?'' None)
     = Inl (Error ''503'')
   \<and> snd (translateSolution provider_down example_service
            (Some (example_question ''q1'' ''Two Sum'')) ''python'')
     = ''Failed to translate solution.''
   \<and> snd (generateSingleQuestion provider_silent example_parse example_service ''Arrays'' 0 5)
     = Inl (Error ''Empty response from AI'')
   \<and> snd (getLearningContent provider_silent example_service ''java'' ''arrays'')
     = Inr ''Failed to generate content.''
   \<and> snd (getExpertAdvice provider_silent example_service ''How do I prepare?'' None)
     = Inr ''Expert is currently unavailable.''
   \<and> snd (translateSolution provider_silent example_service
            (Some (example_question ''q1'' ''Two Sum'')) ''python'')
     = ''Translation failed.''
   \<and> snd (runCodeMock provider_text example_run_parse example_service (Some ''return 1;'') Java
            (example_question ''q1'' ''Two Sum'')) = Inl (SyntaxError ''Unexpected token'')
   \<and> snd (generateSingleQuestion provider_text example_parse example_service ''Arrays'' 0 5)
     = Inr (example_question ''text'' ''text'')
   \<and> snd (getLearningContent provider_text example_service ''java'' ''arrays'') = Inr ''text''
   \<and> snd (getExpertAdvice provider_text
            \<lparr>localKey = None, envKey = Some ''MY_GEMINI_API_KEY'', aiInstance = None, issued = []\<rparr>
            ''How do I prepare?'' None) = Inl (Error ''API_KEY_MISSING'')"
proof -
  let ?q = "example_question ''q1'' ''Two Sum''"
  let ?w' = "example_service\<lparr>aiInstance := Some ''key''\<rparr>"
  let ?none = "\<lparr>localKey = None, envKey = Some ''MY_GEMINI_API_KEY'', aiInstance = None,
                issued = []\<rparr>"
  have client: "getAI example_service = Inr ?w'"
    by (simp add: getAI_def example_service_def Let_def)
  have missing: "getAI ?none = Inl (Error ''API_KEY_MISSING'')"
    by (simp add: getAI_def Let_def)
  note down = provider_failures_surface [where w = example_service and p = provider_down
      and parse = example_parse and parse' = example_run_parse and e = "Error ''503''"
      and tpc = "''Arrays''" and i = 0 and n = 5 and q = ?q and lang = Java
      and cde = "Some ''return 1;''" and msg = "''How do I prepare?''" and ctxt = None
      and target = "''python''", THEN conjunct1, THEN mp, OF client]
  note down' = provider_failures_surface [where w = example_service and p = provider_down
      and parse = example_parse and e = "Error ''503''"
      and ttl = "''Two Sum''" and i = 0 and n = 3 and l = "''java''" and tpc = "''arrays''",
      THEN conjunct1, THEN mp, OF client]
  note silent = provider_failures_surface [where w = example_service and p = provider_silent
      and parse = example_parse and body = None
      and tpc = "''Arrays''" and i = 0 and n = 5 and q = ?q
      and msg = "''How do I prepare?''" and ctxt = None
      and target = "''python''", THEN conjunct1, THEN mp, OF client]
  note silent' = provider_failures_surface [where w = example_service and p = provider_silent
      and body = None and l = "''java''" and tpc = "''arrays''",
      THEN conjunct1, THEN mp, OF client]
  note texted = provider_failures_surface [where w = example_service and p = provider_text
      and parse = example_parse and parse' = example_run_parse and payload = "''text''"
      and tpc = "''Arrays''" and i = 0 and n = 5 and q = ?q and lang = Java
      and cde = "Some ''return 1;''", THEN conjunct1, THEN mp, OF client]
  note texted' = provider_failures_surface [where w = example_service and p = provider_text
      and payload = "''text''" and l = "''java''" and tpc = "''arrays''",
      THEN conjunct1, THEN mp, OF client]
  note absent = provider_failures_surface [where w = ?none and p = provider_text
      and e = "Error ''API_KEY_MISSING''" and msg = "''How do I prepare?''" and ctxt = None,
      THEN conjunct2, THEN conjunct1, THEN mp, OF missing]
  have a: "snd (generateSingleQuestion provider_down example_parse example_service ''Arrays'' 0 5)
             = Inl (Error ''503'')"
    "snd (runCodeMock provider_down example_run_parse example_service (Some ''return 1;'') Java ?q)
       = Inl (Error ''503'')"
    "snd (getExpertAdvice provider_down example_service ''How do I prepare?'' None)
       = Inl (Error ''503'')"
    "snd (translateSolution provider_down example_service (Some ?q) ''python'')
       = ''Failed to translate solution.''"
    using down by (simp_all add: provider_down_def)
  have b: "snd (fetchSingleQuestionByTitle provider_down example_parse example_service
                  ''Two Sum'' 0 3) = Inl (Error ''503'')"
    "snd (getLearningContent provider_down example_service ''java'' ''arrays'') = Inl (Error ''503'')"
    using down' by (simp_all add: provider_down_def)
  have c: "snd (generateSingleQuestion provider_silent example_parse example_service ''Arrays'' 0 5)
             = Inl (Error ''Empty response from AI'')"
    "snd (getExpertAdvice provider_silent example_service ''How do I prepare?'' None)
       = Inr ''Expert is currently unavailable.''"
    "snd (translateSolution provider_silent example_service (Some ?q) ''python'')
       = ''Translation failed.''"
    using silent by (simp_all add: provider_silent_def)
  have d: "snd (getLearningContent provider_silent example_service ''java'' ''arrays'')
             = Inr ''Failed to generate content.''"
    using silent' by (simp add: provider_silent_def)
  have e: "snd (runCodeMock provider_text example_run_parse example_service (Some ''return 1;'')
                  Java ?q) = Inl (SyntaxError ''Unexpected token'')"
    "snd (generateSingleQuestion provider_text example_parse example_service ''Arrays'' 0 5)
       = Inr (example_question ''text'' ''text'')"
    using texted
    by (simp_all add: provider_text_def example_run_parse_def example_run_text_def quoted_def
          example_parse_def)
  have f: "snd (getLearningContent provider_text example_service ''java'' ''arrays'') = Inr ''text''"
    using texted' by (simp add: provider_text_def)
  have g: "snd (getExpertAdvice provider_text ?none ''How do I prepare?'' None)
             = Inl (Error ''API_KEY_MISSING'')"
    using absent by simp
  from a b c d e f g show ?thesis by (intro conjI)
qed

text \<open>
  The claim as it is written fails for the three operations that return text: an empty
  payload comes back from \<^verbatim>\<open>getLearningContent\<close> and \<^verbatim>\<open>getExpertAdvice\<close> as a result,
  and a rejected call comes back from \<^verbatim>\<open>translateSolution\<close> as a result.
\<close>

theorem provider_failures_counterexample:
  "snd (getLearningContent provider_silent example_service ''java'' ''arrays'')
     = Inr ''Failed to generate content.''
   \<and> snd (getExpertAdvice provider_blank example_service ''How do I prepare?'' None)
     = Inr ''Expert is currently unavailable.''
   \<and> snd (translateSolution provider_down example_service
            (Some (example_question ''q1'' ''Two Sum'')) ''python'')
     = ''Failed to translate solution.''"
  by (simp add: getLearningContent_def getExpertAdvice_def translateSolution_def
        generateContent_def getAI_def provider_silent_def provider_blank_def provider_down_def
        example_service_def Let_def)

section \<open>Running code\<close>






end
